theory Spec2Isabelle
  imports Main "HOL-Library.Word" "HOL-Library.Sublist" "HOL-Library.AList"
begin

section \<open>Python values, failures and primitives\<close>

text \<open>
  The exceptions the two modules can raise. The nine write-path classes, the trace
  decoding class and \<open>ValueError\<close> itself carry the message \<open>str(exc)\<close>; all of them
  are \<open>ValueError\<close>s in the source (\<open>EthereumClientException(ValueError)\<close>).
  \<open>OtherError\<close> stands for every exception that is not a \<open>ValueError\<close> and is not
  named here (a transport failure, for instance).
\<close>

datatype py_error =
    IndexError
  | OverflowError
  | KeyError string
  | TypeError
  | AssertionError string
  | ValueError string
  | TransactionAlreadyImported string
  | ReplacementTransactionUnderpriced string
  | FromAddressNotFound string
  | InvalidNonce string
  | NonceTooLow string
  | InsufficientFunds string
  | SenderAccountNotFoundInNode string
  | UnknownAccount string
  | GasLimitExceeded string
  | ParityTraceDecodeException string
  | InsufficientDataBytes
  | NonEmptyPaddingBytes
  | OtherError string

type_synonym byte = "8 word"
type_synonym bytes = "byte list"

text \<open>\<open>xs[i]\<close>: a negative index counts from the end, out of range raises.\<close>

definition py_getitem :: "'a list \<Rightarrow> int \<Rightarrow> py_error + 'a" where
  "py_getitem xs i =
     (if 0 \<le> i \<and> i < int (length xs) then Inr (xs ! nat i)
      else if i < 0 \<and> - int (length xs) \<le> i then Inr (xs ! nat (int (length xs) + i))
      else Inl IndexError)"

text \<open>\<open>xs[a:b]\<close>: both bounds are shifted when negative, then clamped; never raises.\<close>

definition slice_bound :: "nat \<Rightarrow> int \<Rightarrow> nat" where
  "slice_bound n a = (if a < 0 then nat (max 0 (int n + a)) else min n (nat a))"

definition py_slice :: "'a list \<Rightarrow> int \<Rightarrow> int \<Rightarrow> 'a list" where
  "py_slice xs a b =
     (let lo = slice_bound (length xs) a; hi = slice_bound (length xs) b
      in take (hi - lo) (drop lo xs))"

text \<open>\<open>int.from_bytes(bs, 'big')\<close>.\<close>

definition from_bytes_big :: "bytes \<Rightarrow> int" where
  "from_bytes_big bs = foldl (\<lambda>acc b. acc * 256 + uint b) 0 bs"

text \<open>
  \<open>n.to_bytes(k, byteorder='big')\<close>: \<open>OverflowError\<close> for a negative \<open>n\<close> and for one
  that does not fit \<open>k\<close> bytes.
\<close>

fun big_endian :: "nat \<Rightarrow> int \<Rightarrow> bytes" where
  "big_endian 0 n = []"
| "big_endian (Suc k) n = big_endian k (n div 256) @ [word_of_int (n mod 256)]"

definition to_bytes_big :: "int \<Rightarrow> nat \<Rightarrow> py_error + bytes" where
  "to_bytes_big n k =
     (if n < 0 \<or> 256 ^ k \<le> n then Inl OverflowError else Inr (big_endian k n))"

section \<open>gnosis/safe/signatures.py\<close>

text \<open>
  \<open>signature_split(signatures, pos)\<close> on a byte string (\<open>HexBytes\<close> of bytes is the
  same bytes). The index \<open>signatures[64 + signature_pos]\<close> is the only operation that
  can raise; the two slices cannot.
\<close>

definition signature_split :: "bytes \<Rightarrow> int \<Rightarrow> py_error + (int \<times> int \<times> int)" where
  "signature_split signatures pos =
     (let signature_pos = 65 * pos in
      case py_getitem signatures (64 + signature_pos) of
        Inl e \<Rightarrow> Inl e
      | Inr v \<Rightarrow>
          Inr (uint v,
               from_bytes_big (py_slice signatures signature_pos (32 + signature_pos)),
               from_bytes_big (py_slice signatures (32 + signature_pos) (64 + signature_pos))))"

text \<open>\<open>signature_to_bytes((v, r, s))\<close>: \<open>r\<close>, \<open>s\<close>, \<open>v\<close> are converted in this order.\<close>

definition signature_to_bytes :: "int \<times> int \<times> int \<Rightarrow> py_error + bytes" where
  "signature_to_bytes vrs =
     (case vrs of (v, r, s) \<Rightarrow>
        (case to_bytes_big r 32 of
           Inl e \<Rightarrow> Inl e
         | Inr rb \<Rightarrow>
             (case to_bytes_big s 32 of
                Inl e \<Rightarrow> Inl e
              | Inr sb \<Rightarrow>
                  (case to_bytes_big v 1 of
                     Inl e \<Rightarrow> Inl e
                   | Inr vb \<Rightarrow> Inr (rb @ sb @ vb)))))"

text \<open>\<open>signatures_to_bytes\<close>: the list comprehension, then \<open>b''.join\<close>.\<close>

fun signatures_to_bytes :: "(int \<times> int \<times> int) list \<Rightarrow> py_error + bytes" where
  "signatures_to_bytes [] = Inr []"
| "signatures_to_bytes (vrs # rest) =
     (case signature_to_bytes vrs of
        Inl e \<Rightarrow> Inl e
      | Inr b \<Rightarrow>
          (case signatures_to_bytes rest of
             Inl e \<Rightarrow> Inl e
           | Inr bs \<Rightarrow> Inr (b @ bs)))"

definition valid_vrs :: "int \<times> int \<times> int \<Rightarrow> bool" where
  "valid_vrs vrs =
     (case vrs of (v, r, s) \<Rightarrow>
        0 \<le> v \<and> v \<le> 255 \<and> 0 \<le> r \<and> r < 2 ^ 256 \<and> 0 \<le> s \<and> s < 2 ^ 256)"

section \<open>EthereumClient.estimate_data_gas\<close>

text \<open>
  The two gas constants come from \<open>gnosis/eth/constants.py\<close>, which is not among the
  sources at hand: they are parameters here, \<open>zero_byte\<close> for \<open>GAS_CALL_DATA_ZERO_BYTE\<close>
  and \<open>data_byte\<close> for \<open>GAS_CALL_DATA_BYTE\<close>. The loop adds one of them per byte.
\<close>

definition estimate_data_gas :: "int \<Rightarrow> int \<Rightarrow> bytes \<Rightarrow> int" where
  "estimate_data_gas zero_byte data_byte data =
     foldl (\<lambda>gas b. if b = 0 then gas + zero_byte else gas + data_byte) 0 data"

section \<open>Strings\<close>

text \<open>
  Messages are strings of 8-bit characters (code points below 256). On them
  \<open>str.lower()\<close> maps \<open>A..Z\<close> and the Latin-1 capitals (192..222 but 215) 32 places up
  and leaves every other character alone. \<open>a in b\<close> on strings is \<open>sublist a b\<close>.
\<close>

definition py_lower_char :: "char \<Rightarrow> char" where
  "py_lower_char c =
     (let n = (of_char c :: nat) in
      if (65 \<le> n \<and> n \<le> 90) \<or> (192 \<le> n \<and> n \<le> 222 \<and> n \<noteq> 215)
      then char_of (n + 32) else c)"

definition py_lower :: "string \<Rightarrow> string" where
  "py_lower s = map py_lower_char s"

section \<open>The write-path error classifier\<close>

text \<open>
  \<open>except ValueError as exc\<close> catches \<open>ValueError\<close> and its subclasses;
  \<open>value_error_str\<close> gives \<open>str(exc)\<close> for those and \<open>None\<close> for every other
  exception.
\<close>

fun value_error_str :: "py_error \<Rightarrow> string option" where
  "value_error_str (ValueError m) = Some m"
| "value_error_str (TransactionAlreadyImported m) = Some m"
| "value_error_str (ReplacementTransactionUnderpriced m) = Some m"
| "value_error_str (FromAddressNotFound m) = Some m"
| "value_error_str (InvalidNonce m) = Some m"
| "value_error_str (NonceTooLow m) = Some m"
| "value_error_str (InsufficientFunds m) = Some m"
| "value_error_str (SenderAccountNotFoundInNode m) = Some m"
| "value_error_str (UnknownAccount m) = Some m"
| "value_error_str (GasLimitExceeded m) = Some m"
| "value_error_str (ParityTraceDecodeException m) = Some m"
| "value_error_str _ = None"

text \<open>The dictionary \<open>error_with_exception\<close>, in its insertion order.\<close>

definition error_with_exception :: "(string \<times> (string \<Rightarrow> py_error)) list" where
  "error_with_exception =
     [(''Transaction with the same hash was already imported'', TransactionAlreadyImported),
      (''replacement transaction underpriced'', ReplacementTransactionUnderpriced),
      (''There is another transaction with same nonce in the queue'',
         ReplacementTransactionUnderpriced),
      (''from not found'', FromAddressNotFound),
      (''correct nonce'', InvalidNonce),
      (''nonce too low'', NonceTooLow),
      (''insufficient funds'', InsufficientFunds),
      (''doesn't have enough funds'', InsufficientFunds),
      (''sender account not recognized'', SenderAccountNotFoundInNode),
      (''unknown account'', UnknownAccount),
      (''Transaction cost exceeds current gas limit'', GasLimitExceeded),
      (''exceeds block gas limit'', GasLimitExceeded)]"

text \<open>
  The \<open>for reason, custom_exception in error_with_exception.items()\<close> loop: the first
  reason whose lowercase occurs in \<open>str_exc\<close> raises its exception with the message
  \<open>str(exc)\<close>; \<open>None\<close> when the loop ends without raising.
\<close>

fun first_reason ::
  "(string \<times> (string \<Rightarrow> py_error)) list \<Rightarrow> string \<Rightarrow> string \<Rightarrow> py_error option" where
  "first_reason [] str_exc msg = None"
| "first_reason ((reason, custom_exception) # rest) str_exc msg =
     (if sublist (py_lower reason) str_exc then Some (custom_exception msg)
      else first_reason rest str_exc msg)"

text \<open>The decorator, applied to the outcome of the wrapped call.\<close>

definition tx_with_exception_handling :: "py_error + 'a \<Rightarrow> py_error + 'a" where
  "tx_with_exception_handling outcome =
     (case outcome of
        Inr r \<Rightarrow> Inr r
      | Inl exc \<Rightarrow>
          (case value_error_str exc of
             None \<Rightarrow> Inl exc
           | Some msg \<Rightarrow>
               (case first_reason error_with_exception (py_lower msg) msg of
                  Some custom \<Rightarrow> Inl custom
                | None \<Rightarrow> Inl exc)))"

section \<open>EthereumClient.send_unsigned_transaction\<close>

text \<open>
  The node and the local signer, as the loop sees them. The node's answer in the
  \<open>k\<close>-th attempt and to the \<open>k\<close>-th nonce query (counted from 0) may each differ.
  \<open>sign_transaction\<close> gives \<open>(rawTransaction, hash)\<close> for the transaction with the
  given nonce.
\<close>

record tx_node =
  sign_transaction :: "int \<Rightarrow> py_error + (bytes \<times> bytes)"
  send_raw_reply :: "nat \<Rightarrow> bytes \<Rightarrow> py_error + bytes"
  send_reply :: "nat \<Rightarrow> int \<Rightarrow> py_error + bytes"
  transaction_count :: "nat \<Rightarrow> py_error + int"

text \<open>What the function reads of the dictionary \<open>tx\<close>.\<close>

record tx_dict =
  tx_nonce :: "int option"
  tx_has_value :: bool
  tx_has_to :: bool

record send_state =
  nonce :: int
  number_errors :: int
  attempts :: nat
  nonce_queries :: nat

definition truthy_str :: "string option \<Rightarrow> bool" where
  "truthy_str k = (case k of None \<Rightarrow> False | Some s \<Rightarrow> s \<noteq> [])"

text \<open>
  The body of the \<open>try\<close>: one submission. With a private key the transaction is signed
  locally, the \<open>logger.debug\<close> line reads \<open>tx['value']\<close> and \<open>tx['to']\<close>, the raw
  transaction goes through the decorated \<open>send_raw_transaction\<close>, and
  \<open>TransactionAlreadyImported\<close> is answered with the local hash. Otherwise the
  transaction goes through the decorated \<open>send_transaction\<close>.
\<close>

definition attempt :: "tx_node \<Rightarrow> tx_dict \<Rightarrow> bool \<Rightarrow> send_state \<Rightarrow> py_error + bytes" where
  "attempt node tx use_private st =
     (if use_private then
        (case sign_transaction node (nonce st) of
           Inl e \<Rightarrow> Inl e
         | Inr (raw, tx_hash) \<Rightarrow>
             if \<not> tx_has_value tx then Inl (KeyError ''value'')
             else if \<not> tx_has_to tx then Inl (KeyError ''to'')
             else
               (case tx_with_exception_handling (send_raw_reply node (attempts st) raw) of
                  Inr h \<Rightarrow> Inr h
                | Inl (TransactionAlreadyImported m) \<Rightarrow> Inr tx_hash
                | Inl e \<Rightarrow> Inl e))
      else tx_with_exception_handling (send_reply node (attempts st) (nonce st)))"

text \<open>
  The \<open>while number_errors >= 0\<close> loop, with fuel: \<open>None\<close> is a run that has not
  returned within \<open>fuel\<close> iterations. A run that returns gives the outcome (the
  transaction hash, or Python's \<open>None\<close> when the loop condition fails) and the final
  state.
\<close>

fun send_loop ::
  "nat \<Rightarrow> tx_node \<Rightarrow> tx_dict \<Rightarrow> bool \<Rightarrow> bool \<Rightarrow> send_state \<Rightarrow>
   ((py_error + bytes option) \<times> send_state) option" where
  "send_loop 0 node tx use_private retry st = None"
| "send_loop (Suc fuel) node tx use_private retry st =
     (if 0 \<le> number_errors st then
        (case attempt node tx use_private st of
           Inr h \<Rightarrow> Some (Inr (Some h), st\<lparr>attempts := Suc (attempts st)\<rparr>)
         | Inl (ReplacementTransactionUnderpriced m) \<Rightarrow>
             if \<not> retry \<or> number_errors st = 0
             then Some (Inl (ReplacementTransactionUnderpriced m),
                        st\<lparr>attempts := Suc (attempts st)\<rparr>)
             else
               (case transaction_count node (nonce_queries st) of
                  Inl e \<Rightarrow>
                    Some (Inl e, st\<lparr>attempts := Suc (attempts st),
                                     nonce_queries := Suc (nonce_queries st)\<rparr>)
                | Inr fresh \<Rightarrow>
                    send_loop fuel node tx use_private retry
                      (st\<lparr>nonce := max (nonce st + 1) fresh,
                          attempts := Suc (attempts st),
                          nonce_queries := Suc (nonce_queries st)\<rparr>))
         | Inl (InvalidNonce m) \<Rightarrow>
             if \<not> retry \<or> number_errors st = 0
             then Some (Inl (InvalidNonce m), st\<lparr>attempts := Suc (attempts st)\<rparr>)
             else
               (case transaction_count node (nonce_queries st) of
                  Inl e \<Rightarrow>
                    Some (Inl e, st\<lparr>attempts := Suc (attempts st),
                                     nonce_queries := Suc (nonce_queries st)\<rparr>)
                | Inr fresh \<Rightarrow>
                    send_loop fuel node tx use_private retry
                      (st\<lparr>nonce := fresh,
                          number_errors := number_errors st - 1,
                          attempts := Suc (attempts st),
                          nonce_queries := Suc (nonce_queries st)\<rparr>))
         | Inl e \<Rightarrow> Some (Inl e, st\<lparr>attempts := Suc (attempts st)\<rparr>))
      else Some (Inr None, st))"

definition send_unsigned_transaction ::
  "nat \<Rightarrow> tx_node \<Rightarrow> tx_dict \<Rightarrow> string option \<Rightarrow> string option \<Rightarrow> bool \<Rightarrow>
   ((py_error + bytes option) \<times> send_state) option" where
  "send_unsigned_transaction fuel node tx private_key public_key retry =
     (if \<not> truthy_str private_key \<and> \<not> truthy_str public_key
      then Some (Inl (ValueError ''Ethereum account was not configured or unlocked in the node''),
                 \<lparr>nonce = 0, number_errors = 5, attempts = 0, nonce_queries = 0\<rparr>)
      else
        (case tx_nonce tx of
           Some n \<Rightarrow>
             send_loop fuel node tx (truthy_str private_key) retry
               \<lparr>nonce = n, number_errors = 5, attempts = 0, nonce_queries = 0\<rparr>
         | None \<Rightarrow>
             (case transaction_count node 0 of
                Inl e \<Rightarrow>
                  Some (Inl e, \<lparr>nonce = 0, number_errors = 5, attempts = 0, nonce_queries = 1\<rparr>)
              | Inr n \<Rightarrow>
                  send_loop fuel node tx (truthy_str private_key) retry
                    \<lparr>nonce = n, number_errors = 5, attempts = 0, nonce_queries = 1\<rparr>)))"

text \<open>
  A node that answers every submission with the same message, and every nonce query
  with 0; the signer always succeeds.
\<close>

definition stubborn_node :: "string \<Rightarrow> tx_node" where
  "stubborn_node msg =
     \<lparr>sign_transaction = (\<lambda>n. Inr ([], [])),
      send_raw_reply = (\<lambda>k raw. Inl (ValueError msg)),
      send_reply = (\<lambda>k n. Inl (ValueError msg)),
      transaction_count = (\<lambda>k. Inr 0)\<rparr>"

definition plain_tx :: tx_dict where
  "plain_tx = \<lparr>tx_nonce = Some 0, tx_has_value = True, tx_has_to = True\<rparr>"

section \<open>JSON values and the node\<close>

text \<open>
  The values that travel between the client and the node: JSON, plus byte strings
  (\<open>HexBytes\<close>) for decoded fields. A dictionary keeps its insertion order.
\<close>

datatype pyval =
    PNone
  | PBool bool
  | PInt int
  | PStr string
  | PBytes bytes
  | PList "pyval list"
  | PDict "(string \<times> pyval) list"

fun py_truthy :: "pyval \<Rightarrow> bool" where
  "py_truthy PNone = False"
| "py_truthy (PBool b) = b"
| "py_truthy (PInt n) = (n \<noteq> 0)"
| "py_truthy (PStr s) = (s \<noteq> [])"
| "py_truthy (PBytes b) = (b \<noteq> [])"
| "py_truthy (PList xs) = (xs \<noteq> [])"
| "py_truthy (PDict kvs) = (kvs \<noteq> [])"

text \<open>\<open>for x in v\<close>: a dictionary yields its keys, a string its characters.\<close>

fun py_iter :: "pyval \<Rightarrow> py_error + pyval list" where
  "py_iter (PList xs) = Inr xs"
| "py_iter (PDict kvs) = Inr (map (\<lambda>kv. PStr (fst kv)) kvs)"
| "py_iter (PStr s) = Inr (map (\<lambda>c. PStr [c]) s)"
| "py_iter (PBytes b) = Inr (map (\<lambda>x. PInt (uint x)) b)"
| "py_iter _ = Inl TypeError"

text \<open>\<open>v[key]\<close> with a string key: only a dictionary can be read this way.\<close>

fun py_subscript :: "pyval \<Rightarrow> string \<Rightarrow> py_error + pyval" where
  "py_subscript (PDict kvs) k =
     (case map_of kvs k of None \<Rightarrow> Inl (KeyError k) | Some x \<Rightarrow> Inr x)"
| "py_subscript _ k = Inl TypeError"

text \<open>\<open>key in v\<close> with a string key.\<close>

fun py_in_str :: "string \<Rightarrow> pyval \<Rightarrow> py_error + bool" where
  "py_in_str k (PDict kvs) = Inr (k \<in> set (map fst kvs))"
| "py_in_str k (PList xs) = Inr (PStr k \<in> set xs)"
| "py_in_str k (PStr s) = Inr (sublist k s)"
| "py_in_str k _ = Inl TypeError"

text \<open>
  A request is either \<open>requests.post(url, json=payload)\<close> or a call through web3
  (method and parameters). The node's reply to the \<open>k\<close>-th request of a run (counted
  from 0) is the decoded JSON or a failure; the log lists the requests made so far.
\<close>

datatype request = HttpPost pyval | RpcCall string "pyval list"

type_synonym node = "nat \<Rightarrow> request \<Rightarrow> py_error + pyval"

definition perform :: "node \<Rightarrow> request list \<Rightarrow> request \<Rightarrow> (py_error + pyval) \<times> request list" where
  "perform nd log req = (nd (length log) req, log @ [req])"

text \<open>
  Functions of other packages: Python's \<open>int(x, 16)\<close>, web3's \<open>toChecksumAddress\<close>,
  \<open>HexBytes\<close>, the \<open>'%s'\<close> rendering of a trace and web3's three formatters.
\<close>

record lib =
  int16 :: "pyval \<Rightarrow> py_error + int"
  to_checksum_address :: "pyval \<Rightarrow> py_error + string"
  hex_bytes :: "pyval \<Rightarrow> py_error + bytes"
  format_trace :: "pyval \<Rightarrow> string"
  transaction_formatter :: "pyval \<Rightarrow> py_error + pyval"
  receipt_formatter :: "pyval \<Rightarrow> py_error + pyval"
  block_formatter :: "pyval \<Rightarrow> py_error + pyval"

text \<open>A loop that appends \<open>f x\<close> for each \<open>x\<close> and stops at the first failure.\<close>

fun each :: "('a \<Rightarrow> py_error + 'b) \<Rightarrow> 'a list \<Rightarrow> py_error + 'b list" where
  "each f [] = Inr []"
| "each f (x # xs) =
     (case f x of
        Inl e \<Rightarrow> Inl e
      | Inr y \<Rightarrow> (case each f xs of Inl e \<Rightarrow> Inl e | Inr ys \<Rightarrow> Inr (y # ys)))"

subsection \<open>Hexadecimal text\<close>

definition hex_digit :: "nat \<Rightarrow> char" where
  "hex_digit d = ''0123456789abcdef'' ! d"

fun hex_nat :: "nat \<Rightarrow> string" where
  "hex_nat n = (if n < 16 then [hex_digit n] else hex_nat (n div 16) @ [hex_digit (n mod 16)])"

declare hex_nat.simps [simp del]

text \<open>Reading hexadecimal digits back, to say what the text denotes.\<close>

definition hex_digit_value :: "char \<Rightarrow> nat" where
  "hex_digit_value c = (if (of_char c :: nat) < 97 then of_char c - 48 else of_char c - 87)"

definition hex_to_nat :: "string \<Rightarrow> nat" where
  "hex_to_nat s = foldl (\<lambda>acc c. 16 * acc + hex_digit_value c) 0 s"

text \<open>\<open>'%x' % n\<close>: the sign, then the digits.\<close>

definition percent_x :: "int \<Rightarrow> string" where
  "percent_x n = (if n < 0 then ''-'' @ hex_nat (nat (- n)) else hex_nat (nat n))"

text \<open>\<open>hex(n)\<close>: the sign, \<open>0x\<close>, then the digits.\<close>

definition py_hex :: "int \<Rightarrow> string" where
  "py_hex n = (if n < 0 then ''-0x'' @ hex_nat (nat (- n)) else ''0x'' @ hex_nat (nat n))"

text \<open>\<open>HexBytes(b).hex()\<close>: \<open>0x\<close> and two digits per byte.\<close>

definition hexbytes_hex :: "bytes \<Rightarrow> string" where
  "hexbytes_hex b = ''0x'' @ concat (map (\<lambda>x. [hex_digit (unat x div 16), hex_digit (unat x mod 16)]) b)"

section \<open>Erc20Manager.get_balances\<close>

text \<open>\<open>address.replace('0x', '')\<close>: every occurrence, left to right.\<close>

fun remove_0x :: "string \<Rightarrow> string" where
  "remove_0x (a # b # rest) =
     (if a = CHR ''0'' \<and> b = CHR ''x'' then remove_0x rest else a # remove_0x (b # rest))"
| "remove_0x s = s"

text \<open>\<open>'{:0>64}'.format(s)\<close>: zeros on the left up to 64 characters.\<close>

definition pad64 :: "string \<Rightarrow> string" where
  "pad64 s = replicate (64 - length s) (CHR ''0'') @ s"

definition balance_query :: "string \<Rightarrow> pyval" where
  "balance_query address =
     PDict [(''jsonrpc'', PStr ''2.0''),
            (''method'', PStr ''eth_getBalance''),
            (''params'', PList [PStr address, PStr ''latest'']),
            (''id'', PInt 0)]"

definition token_query :: "string \<Rightarrow> nat \<Rightarrow> string \<Rightarrow> pyval" where
  "token_query address i erc20_address =
     PDict [(''jsonrpc'', PStr ''2.0''),
            (''method'', PStr ''eth_call''),
            (''params'',
               PList [PDict [(''to'', PStr erc20_address),
                             (''data'', PStr (''0x70a08231'' @ pad64 (py_lower (remove_0x address))))],
                      PStr ''latest'']),
            (''id'', PInt (int i + 1))]"

definition balance_queries :: "string \<Rightarrow> string list \<Rightarrow> pyval list" where
  "balance_queries address erc20_addresses =
     balance_query address #
     map (\<lambda>(i, a). token_query address i a) (enumerate 0 erc20_addresses)"

record balance_entry =
  token_address :: "string option"
  balance :: int

text \<open>One step of the \<open>zip\<close> loop: \<open>0 if data['result'] == '0x' else int(data['result'], 16)\<close>.\<close>

definition decode_balance :: "lib \<Rightarrow> string option \<times> pyval \<Rightarrow> py_error + balance_entry" where
  "decode_balance l entry =
     (case py_subscript (snd entry) ''result'' of
        Inl e \<Rightarrow> Inl e
      | Inr r \<Rightarrow>
          if r = PStr ''0x'' then Inr \<lparr>token_address = fst entry, balance = 0\<rparr>
          else
            (case int16 l r of
               Inl e \<Rightarrow> Inl e
             | Inr n \<Rightarrow> Inr \<lparr>token_address = fst entry, balance = n\<rparr>))"

definition get_balances ::
  "lib \<Rightarrow> node \<Rightarrow> request list \<Rightarrow> string \<Rightarrow> string list \<Rightarrow>
   (py_error + balance_entry list) \<times> request list" where
  "get_balances l nd log address erc20_addresses =
     (case perform nd log (HttpPost (PList (balance_queries address erc20_addresses))) of
        (reply, log') \<Rightarrow>
          ((case reply of
              Inl e \<Rightarrow> Inl e
            | Inr response \<Rightarrow>
                (case py_iter response of
                   Inl e \<Rightarrow> Inl e
                 | Inr datas \<Rightarrow>
                     each (decode_balance l) (zip (None # map Some erc20_addresses) datas))),
           log'))"

section \<open>Batched accessors of EthereumClient\<close>

text \<open>The payload of a batch: one query per item, with \<open>id\<close> its index.\<close>

definition batch_payload :: "string \<Rightarrow> ('a \<Rightarrow> pyval list) \<Rightarrow> 'a list \<Rightarrow> pyval" where
  "batch_payload method params_of items =
     PList (map (\<lambda>(i, x). PDict [(''id'', PInt (int i)),
                                   (''jsonrpc'', PStr ''2.0''),
                                   (''method'', PStr method),
                                   (''params'', PList (params_of x))])
              (enumerate 0 items))"

text \<open>
  \<open>results = requests.post(url, json=payload).json()\<close> and the loop over
  \<open>results\<close>: one request, then each entry of the reply is handled in turn.
\<close>

definition post_and_each ::
  "node \<Rightarrow> request list \<Rightarrow> pyval \<Rightarrow> (pyval \<Rightarrow> py_error + pyval) \<Rightarrow>
   (py_error + pyval list) \<times> request list" where
  "post_and_each nd log payload per_result =
     (case perform nd log (HttpPost payload) of
        (reply, log') \<Rightarrow>
          ((case reply of
              Inl e \<Rightarrow> Inl e
            | Inr results \<Rightarrow>
                (case py_iter results of
                   Inl e \<Rightarrow> Inl e
                 | Inr rs \<Rightarrow> each per_result rs)),
           log'))"

definition get_transactions ::
  "lib \<Rightarrow> node \<Rightarrow> request list \<Rightarrow> bytes list \<Rightarrow> (py_error + pyval list) \<times> request list" where
  "get_transactions l nd log tx_hashes =
     (if tx_hashes = [] then (Inr [], log)
      else post_and_each nd log
       (batch_payload ''eth_getTransactionByHash'' (\<lambda>h. [PStr (hexbytes_hex h)]) tx_hashes)
       (\<lambda>result.
          case py_subscript result ''result'' of
            Inl e \<Rightarrow> Inl e
          | Inr raw_tx \<Rightarrow>
              if py_truthy raw_tx then transaction_formatter l raw_tx else Inr PNone))"

definition get_transaction_receipts ::
  "lib \<Rightarrow> node \<Rightarrow> request list \<Rightarrow> bytes list \<Rightarrow> (py_error + pyval list) \<times> request list" where
  "get_transaction_receipts l nd log tx_hashes =
     (if tx_hashes = [] then (Inr [], log)
      else post_and_each nd log
       (batch_payload ''eth_getTransactionReceipt'' (\<lambda>h. [PStr (hexbytes_hex h)]) tx_hashes)
       (\<lambda>result.
          case py_subscript result ''result'' of
            Inl e \<Rightarrow> Inl e
          | Inr tx_receipt \<Rightarrow>
              if py_truthy tx_receipt then
                (case py_subscript tx_receipt ''blockNumber'' of
                   Inl e \<Rightarrow> Inl e
                 | Inr bn \<Rightarrow> if bn \<noteq> PNone then receipt_formatter l tx_receipt else Inr PNone)
              else Inr PNone))"

definition get_blocks ::
  "lib \<Rightarrow> node \<Rightarrow> request list \<Rightarrow> int list \<Rightarrow> bool \<Rightarrow>
   (py_error + pyval list) \<times> request list" where
  "get_blocks l nd log block_numbers full_transactions =
     (if block_numbers = [] then (Inr [], log)
      else post_and_each nd log
       (batch_payload ''eth_getBlockByNumber''
          (\<lambda>n. [PStr (py_hex n), PBool full_transactions]) block_numbers)
       (\<lambda>result.
          case py_subscript result ''result'' of
            Inl e \<Rightarrow> Inl e
          | Inr raw_block \<Rightarrow>
              if py_truthy raw_block then
                (case py_in_str ''extraData'' raw_block of
                   Inl e \<Rightarrow> Inl e
                 | Inr False \<Rightarrow> block_formatter l raw_block
                 | Inr True \<Rightarrow>
                     (case raw_block of
                        PDict kvs \<Rightarrow> block_formatter l (PDict (AList.delete ''extraData'' kvs))
                      | _ \<Rightarrow> Inl TypeError))
              else Inr PNone))"

section \<open>ParityManager\<close>

datatype conv = ToAddress | ToInt | ToBytes | Keep

definition convert :: "lib \<Rightarrow> conv \<Rightarrow> pyval \<Rightarrow> py_error + pyval" where
  "convert l c v =
     (case c of
        ToAddress \<Rightarrow> (case to_checksum_address l v of Inl e \<Rightarrow> Inl e | Inr a \<Rightarrow> Inr (PStr a))
      | ToInt \<Rightarrow> (case int16 l v of Inl e \<Rightarrow> Inl e | Inr n \<Rightarrow> Inr (PInt n))
      | ToBytes \<Rightarrow> (case hex_bytes l v of Inl e \<Rightarrow> Inl e | Inr b \<Rightarrow> Inr (PBytes b))
      | Keep \<Rightarrow> Inr v)"

text \<open>
  The chains of \<open>if 'k' in src: decoded['k'] = conv(src['k'])\<close>, one field after the
  other in the order of the source.
\<close>

fun decode_fields ::
  "lib \<Rightarrow> (string \<times> conv) list \<Rightarrow> pyval \<Rightarrow> (string \<times> pyval) list \<Rightarrow>
   py_error + (string \<times> pyval) list" where
  "decode_fields l [] src decoded = Inr decoded"
| "decode_fields l ((k, c) # rest) src decoded =
     (case py_in_str k src of
        Inl e \<Rightarrow> Inl e
      | Inr False \<Rightarrow> decode_fields l rest src decoded
      | Inr True \<Rightarrow>
          (case py_subscript src k of
             Inl e \<Rightarrow> Inl e
           | Inr v \<Rightarrow>
               (case convert l c v of
                  Inl e \<Rightarrow> Inl e
                | Inr w \<Rightarrow> decode_fields l rest src (AList.update k w decoded))))"

definition decode_trace_action :: "lib \<Rightarrow> pyval \<Rightarrow> py_error + pyval" where
  "decode_trace_action l action =
     (case decode_fields l
             [(''from'', ToAddress), (''gas'', ToInt), (''value'', ToInt),
              (''callType'', Keep), (''input'', ToBytes), (''to'', ToAddress),
              (''init'', ToBytes),
              (''address'', ToAddress), (''balance'', ToInt), (''refundAddress'', ToAddress)]
             action [] of
        Inl e \<Rightarrow> Inl e
      | Inr decoded \<Rightarrow> Inr (PDict decoded))"

definition decode_trace_result :: "lib \<Rightarrow> pyval \<Rightarrow> py_error + pyval" where
  "decode_trace_result l result =
     (case py_subscript result ''gasUsed'' of
        Inl e \<Rightarrow> Inl e
      | Inr g \<Rightarrow>
          (case int16 l g of
             Inl e \<Rightarrow> Inl e
           | Inr n \<Rightarrow>
               (case decode_fields l
                       [(''output'', ToBytes), (''code'', ToBytes), (''address'', ToAddress)]
                       result [(''gasUsed'', PInt n)] of
                  Inl e \<Rightarrow> Inl e
                | Inr decoded \<Rightarrow> Inr (PDict decoded))))"

text \<open>The body of the loop of \<open>_decode_traces\<close> for one trace.\<close>

definition decode_trace :: "lib \<Rightarrow> pyval \<Rightarrow> py_error + pyval" where
  "decode_trace l trace =
     (case trace of
        PDict kvs \<Rightarrow>
          (case (case map_of kvs ''result'' of
                   None \<Rightarrow> Inr kvs
                 | Some r \<Rightarrow>
                     if py_truthy r then
                       (case decode_trace_result l r of
                          Inl e \<Rightarrow> Inl e
                        | Inr d \<Rightarrow> Inr (AList.update ''result'' d kvs))
                     else Inr kvs) of
             Inl e \<Rightarrow> Inl e
           | Inr trace_copy \<Rightarrow>
               (case map_of kvs ''action'' of
                  None \<Rightarrow> Inl (KeyError ''action'')
                | Some a \<Rightarrow>
                    (case decode_trace_action l a of
                       Inl e \<Rightarrow> Inl e
                     | Inr d \<Rightarrow> Inr (PDict (AList.update ''action'' d trace_copy)))))
      | _ \<Rightarrow>
          Inl (ParityTraceDecodeException
                 (''Expected dictionary, but found unexpected trace '' @ format_trace l trace)))"

definition decode_traces :: "lib \<Rightarrow> pyval \<Rightarrow> py_error + pyval" where
  "decode_traces l traces =
     (case py_iter traces of
        Inl e \<Rightarrow> Inl e
      | Inr ts \<Rightarrow> (case each (decode_trace l) ts of Inl e \<Rightarrow> Inl e | Inr ds \<Rightarrow> Inr (PList ds)))"

text \<open>
  \<open>try: return self._decode_traces(call()) except ParityTraceDecodeException: return
  self._decode_traces(call())\<close>, the shape of \<open>trace_transaction\<close> and of the end of
  \<open>trace_filter\<close>: the handler issues the call again.
\<close>

definition call_and_decode ::
  "lib \<Rightarrow> node \<Rightarrow> request list \<Rightarrow> request \<Rightarrow> (py_error + pyval) \<times> request list" where
  "call_and_decode l nd log req =
     (case perform nd log req of
        (reply, log') \<Rightarrow>
          ((case reply of Inl e \<Rightarrow> Inl e | Inr traces \<Rightarrow> decode_traces l traces), log'))"

definition decode_with_retry ::
  "lib \<Rightarrow> node \<Rightarrow> request list \<Rightarrow> request \<Rightarrow> (py_error + pyval) \<times> request list" where
  "decode_with_retry l nd log req =
     (case call_and_decode l nd log req of
        (Inl (ParityTraceDecodeException m), log') \<Rightarrow> call_and_decode l nd log' req
      | (outcome, log') \<Rightarrow> (outcome, log'))"

definition trace_transaction ::
  "lib \<Rightarrow> node \<Rightarrow> request list \<Rightarrow> bytes \<Rightarrow> (py_error + pyval) \<times> request list" where
  "trace_transaction l nd log tx_hash =
     decode_with_retry l nd log (RpcCall ''trace_transaction'' [PBytes tx_hash])"

text \<open>
  \<open>trace_transactions\<close>: one batched request; in the loop over the reply the handler
  decodes the same \<open>raw_tx\<close> again.
\<close>

definition trace_transactions ::
  "lib \<Rightarrow> node \<Rightarrow> request list \<Rightarrow> bytes list \<Rightarrow> (py_error + pyval list) \<times> request list" where
  "trace_transactions l nd log tx_hashes =
     (if tx_hashes = [] then (Inr [], log)
      else post_and_each nd log
       (batch_payload ''trace_transaction'' (\<lambda>h. [PStr (hexbytes_hex h)]) tx_hashes)
       (\<lambda>result.
          case py_subscript result ''result'' of
            Inl e \<Rightarrow> Inl e
          | Inr raw_tx \<Rightarrow>
              if py_truthy raw_tx then
                (case decode_traces l raw_tx of
                   Inl (ParityTraceDecodeException m) \<Rightarrow> decode_traces l raw_tx
                 | outcome \<Rightarrow> outcome)
              else Inr PNone))"

text \<open>
  \<open>trace_filter\<close>: the assertion, the request parameters (a value that is falsy, such
  as 0, \<open>None\<close> or an empty list, is left out), then the call with its retry.
\<close>

definition truthy_int :: "int option \<Rightarrow> bool" where
  "truthy_int n = (case n of None \<Rightarrow> False | Some k \<Rightarrow> k \<noteq> 0)"

definition truthy_list :: "'a list option \<Rightarrow> bool" where
  "truthy_list xs = (case xs of None \<Rightarrow> False | Some ys \<Rightarrow> ys \<noteq> [])"

definition trace_filter_parameters ::
  "int \<Rightarrow> int option \<Rightarrow> string list option \<Rightarrow> string list option \<Rightarrow> int option \<Rightarrow>
   int option \<Rightarrow> (string \<times> pyval) list" where
  "trace_filter_parameters from_block to_block from_address to_address after count =
     (if from_block \<noteq> 0 then [(''fromBlock'', PStr (''0x'' @ percent_x from_block))] else []) @
     (if truthy_int to_block then [(''toBlock'', PStr (''0x'' @ percent_x (the to_block)))] else []) @
     (if truthy_list from_address
        then [(''fromAddress'', PList (map PStr (the from_address)))] else []) @
     (if truthy_list to_address
        then [(''toAddress'', PList (map PStr (the to_address)))] else []) @
     (if truthy_int after then [(''after'', PInt (the after))] else []) @
     (if truthy_int count then [(''count'', PInt (the count))] else [])"

definition trace_filter ::
  "lib \<Rightarrow> node \<Rightarrow> request list \<Rightarrow> int \<Rightarrow> int option \<Rightarrow> string list option \<Rightarrow>
   string list option \<Rightarrow> int option \<Rightarrow> int option \<Rightarrow> (py_error + pyval) \<times> request list" where
  "trace_filter l nd log from_block to_block from_address to_address after count =
     (if truthy_list from_address \<or> truthy_list to_address then
        decode_with_retry l nd log
          (RpcCall ''trace_filter''
             [PDict (trace_filter_parameters from_block to_block from_address to_address
                       after count)])
      else (Inl (AssertionError ''You must provide at least `from_address` or `to_address`''), log))"

section \<open>Erc20Manager: decoding Transfer logs\<close>

text \<open>
  \<open>TRANSFER_TOPIC\<close> is \<open>HexBytes(ERC20_721_TRANSFER_TOPIC)\<close>; the constant lives in
  \<open>gnosis/eth/constants.py\<close> and its value is the one the comment above the class
  attribute gives, \<open>keccak('Transfer(address,address,uint256)')\<close>.
\<close>

definition TRANSFER_TOPIC :: bytes where
  "TRANSFER_TOPIC =
     [0xdd, 0xf2, 0x52, 0xad, 0x1b, 0xe2, 0xc8, 0x9b, 0x69, 0xc2, 0xb0, 0x68, 0xfc, 0x37, 0x8d, 0xaa,
      0x95, 0x2b, 0xa7, 0xf1, 0x63, 0xc4, 0xa1, 0x16, 0x28, 0xf5, 0x5a, 0x4d, 0xf5, 0x23, 0xb3, 0xef]"

text \<open>
  The decoders of the package \<open>eth_abi\<close> for the two static types used here. Every
  value is read from a 32-byte word, the \<open>i\<close>-th of the data; fewer bytes raise
  \<open>InsufficientDataBytes\<close>. A \<open>uint256\<close> is the word read big-endian. An \<open>address\<close>
  is the last 20 bytes of the word, and a word whose first 12 bytes are not all zero
  raises \<open>NonEmptyPaddingBytes\<close>.
\<close>

definition abi_word :: "bytes \<Rightarrow> nat \<Rightarrow> py_error + bytes" where
  "abi_word data i =
     (if length (take 32 (drop (32 * i) data)) < 32 then Inl InsufficientDataBytes
      else Inr (take 32 (drop (32 * i) data)))"

definition abi_uint256 :: "bytes \<Rightarrow> nat \<Rightarrow> py_error + int" where
  "abi_uint256 data i =
     (case abi_word data i of Inl e \<Rightarrow> Inl e | Inr w \<Rightarrow> Inr (from_bytes_big w))"

definition abi_address :: "bytes \<Rightarrow> nat \<Rightarrow> py_error + bytes" where
  "abi_address data i =
     (case abi_word data i of
        Inl e \<Rightarrow> Inl e
      | Inr w \<Rightarrow> if take 12 w = replicate 12 0 then Inr (drop 12 w) else Inl NonEmptyPaddingBytes)"

text \<open>
  The decoded arguments. \<open>checksum\<close> stands for \<open>Web3.toChecksumAddress\<close> on the
  normalized address (\<open>0x\<close> and 40 lowercase digits) that \<open>eth_abi\<close> returns.
\<close>

datatype transfer =
    Erc20Transfer string string int
  | Erc721Transfer string string int

definition decode_erc20_log ::
  "(string \<Rightarrow> string) \<Rightarrow> bytes \<Rightarrow> bytes list \<Rightarrow> py_error + transfer option" where
  "decode_erc20_log checksum data topics =
     (if topics \<noteq> [] \<and> hd topics = TRANSFER_TOPIC \<and> length topics = 3 then
        (case abi_uint256 data 0 of
           Inl e \<Rightarrow> Inl e
         | Inr v \<Rightarrow>
             (case abi_address (concat (tl topics)) 0 of
                Inl e \<Rightarrow> Inl e
              | Inr sender \<Rightarrow>
                  (case abi_address (concat (tl topics)) 1 of
                     Inl e \<Rightarrow> Inl e
                   | Inr receiver \<Rightarrow>
                       Inr (Some (Erc20Transfer (checksum (hexbytes_hex sender))
                                    (checksum (hexbytes_hex receiver)) v)))))
      else Inr None)"

definition decode_erc721_log ::
  "(string \<Rightarrow> string) \<Rightarrow> bytes list \<Rightarrow> py_error + transfer option" where
  "decode_erc721_log checksum topics =
     (if topics \<noteq> [] \<and> hd topics = TRANSFER_TOPIC \<and> length topics = 4 then
        (case abi_address (concat (tl topics)) 0 of
           Inl e \<Rightarrow> Inl e
         | Inr sender \<Rightarrow>
             (case abi_address (concat (tl topics)) 1 of
                Inl e \<Rightarrow> Inl e
              | Inr receiver \<Rightarrow>
                  (case abi_uint256 (concat (tl topics)) 2 of
                     Inl e \<Rightarrow> Inl e
                   | Inr token_id \<Rightarrow>
                       Inr (Some (Erc721Transfer (checksum (hexbytes_hex sender))
                                    (checksum (hexbytes_hex receiver)) token_id)))))
      else Inr None)"

definition decode_erc20_or_erc721_log ::
  "(string \<Rightarrow> string) \<Rightarrow> bytes \<Rightarrow> bytes list \<Rightarrow> py_error + transfer option" where
  "decode_erc20_or_erc721_log checksum data topics =
     (case decode_erc20_log checksum data topics of
        Inl e \<Rightarrow> Inl e
      | Inr (Some decoded) \<Rightarrow> Inr (Some decoded)
      | Inr None \<Rightarrow> decode_erc721_log checksum topics)"

text \<open>A topic that holds an address: 32 bytes, the first 12 of them zero.\<close>

definition address_word :: "bytes \<Rightarrow> bool" where
  "address_word w = (length w = 32 \<and> take 12 w = replicate 12 0)"

section \<open>Sample collaborators\<close>

text \<open>
  A library whose conversions always succeed, and a node whose first reply carries a
  trace that is not a dictionary and whose later replies carry a well-formed one.
\<close>

definition plain_lib :: lib where
  "plain_lib =
     \<lparr>int16 = (\<lambda>v. Inr 0),
      to_checksum_address = (\<lambda>v. Inr []),
      hex_bytes = (\<lambda>v. Inr []),
      format_trace = (\<lambda>v. []),
      transaction_formatter = Inr,
      receipt_formatter = Inr,
      block_formatter = Inr\<rparr>"

definition good_trace :: pyval where
  "good_trace = PDict [(''action'', PDict [])]"

definition flaky_node :: node where
  "flaky_node k req =
     (case req of
        HttpPost payload \<Rightarrow>
          Inr (PList [PDict [(''result'', PList [if k = 0 then PStr ''oops'' else good_trace])]])
      | RpcCall method params \<Rightarrow> Inr (PList [if k = 0 then PStr ''oops'' else good_trace]))"

text \<open>
  A library whose \<open>int16\<close> reads \<open>0x\<close> followed by lowercase hexadecimal digits,
  as \<open>int(x, 16)\<close> does on such a string.
\<close>

definition hex_lib :: lib where
  "hex_lib =
     plain_lib\<lparr>int16 :=
       (\<lambda>v. case v of
              PStr s \<Rightarrow>
                (case s of
                   a # b # ds \<Rightarrow>
                     if a = CHR ''0'' \<and> b = CHR ''x'' then Inr (int (hex_to_nat ds))
                     else Inl (ValueError s)
                 | _ \<Rightarrow> Inl (ValueError s))
            | _ \<Rightarrow> Inl TypeError)\<rparr>"

text \<open>
  Two nodes that answer a batch of two queries: one in the order of the request, one
  with the two responses swapped (the response to \<open>id\<close> 1 first).
\<close>

definition ordered_node :: node where
  "ordered_node k req =
     Inr (PList [PDict [(''id'', PInt 0), (''result'', PStr ''0x'')],
                 PDict [(''id'', PInt 1), (''result'', PStr ''0xff'')]])"

definition swapped_node :: node where
  "swapped_node k req =
     Inr (PList [PDict [(''id'', PInt 1), (''result'', PStr ''0xff'')],
                 PDict [(''id'', PInt 0), (''result'', PStr ''0x'')]])"

text \<open>A node that answers every request with three entries whose result is \<open>0x\<close>.\<close>

definition empty_results_node :: node where
  "empty_results_node k req =
     Inr (PList [PDict [(''result'', PStr ''0x'')], PDict [(''result'', PStr ''0x'')],
                 PDict [(''result'', PStr ''0x'')]])"

section \<open>Properties\<close>

lemma from_bytes_big_snoc:
  "from_bytes_big (bs @ [b]) = from_bytes_big bs * 256 + uint b"
  by (simp add: from_bytes_big_def)

lemma length_big_endian: "length (big_endian k n) = k"
  by (induction k arbitrary: n) simp_all

lemma from_big_endian: "0 \<le> n \<Longrightarrow> from_bytes_big (big_endian k n) = n mod 256 ^ k"
proof (induction k arbitrary: n)
  case 0
  then show ?case by (simp add: from_bytes_big_def)
next
  case (Suc k)
  have "0 \<le> n div 256" using Suc.prems by simp
  then have ih: "from_bytes_big (big_endian k (n div 256)) = (n div 256) mod 256 ^ k"
    by (rule Suc.IH)
  have u: "uint (word_of_int (n mod 256) :: byte) = n mod 256"
    by (simp add: uint_word_of_int take_bit_eq_mod)
  have "n mod 256 ^ Suc k = 256 * ((n div 256) mod 256 ^ k) + n mod 256"
    using zmod_zmult2_eq [of "256 ^ k" n 256] by simp
  then show ?case
    by (simp add: from_bytes_big_snoc ih u)
qed

lemma py_slice_nonneg:
  "0 \<le> a \<Longrightarrow> a \<le> b \<Longrightarrow> b \<le> int (length xs) \<Longrightarrow>
   py_slice xs a b = take (nat (b - a)) (drop (nat a) xs)"
  by (simp add: py_slice_def slice_bound_def Let_def min_def nat_diff_distrib)

lemma py_getitem_nonneg:
  "0 \<le> i \<Longrightarrow> i < int (length xs) \<Longrightarrow> py_getitem xs i = Inr (xs ! nat i)"
  by (simp add: py_getitem_def)



lemma signature_split_long:
  assumes "0 \<le> pos" "65 * (pos + 1) \<le> int (length bs)"
  shows "signature_split bs pos =
     Inr (uint (bs ! nat (65 * pos + 64)),
          from_bytes_big (take 32 (drop (nat (65 * pos)) bs)),
          from_bytes_big (take 32 (drop (nat (65 * pos + 32)) bs)))"
proof -
  have g: "py_getitem bs (64 + 65 * pos) = Inr (bs ! nat (65 * pos + 64))"
    using assms by (simp add: py_getitem_nonneg add.commute)
  have s1: "py_slice bs (65 * pos) (32 + 65 * pos) = take 32 (drop (nat (65 * pos)) bs)"
    using assms by (simp add: py_slice_nonneg)
  have s2: "py_slice bs (32 + 65 * pos) (64 + 65 * pos) = take 32 (drop (nat (65 * pos + 32)) bs)"
    using assms by (simp add: py_slice_nonneg add.commute)
  show ?thesis
    by (simp add: signature_split_def Let_def g s1 s2)
qed

lemma signature_to_bytes_valid:
  assumes "valid_vrs (v, r, s)"
  shows "signature_to_bytes (v, r, s) = Inr (big_endian 32 r @ big_endian 32 s @ [word_of_int v])"
proof -
  have r: "to_bytes_big r 32 = Inr (big_endian 32 r)"
    using assms by (simp add: valid_vrs_def to_bytes_big_def)
  have s: "to_bytes_big s 32 = Inr (big_endian 32 s)"
    using assms by (simp add: valid_vrs_def to_bytes_big_def)
  have v: "to_bytes_big v 1 = Inr [word_of_int v]"
    using assms by (simp add: valid_vrs_def to_bytes_big_def)
  show ?thesis
    unfolding signature_to_bytes_def by (simp only: r s v prod.case sum.case)
qed

lemma signature_split_chunk:
  assumes ok: "valid_vrs (v, r, s)"
    and pre: "length pre = 65 * k"
  shows "signature_split (pre @ (big_endian 32 r @ big_endian 32 s @ [word_of_int v]) @ post) (int k)
         = Inr (v, r, s)"
proof -
  let ?rb = "big_endian 32 r" and ?sb = "big_endian 32 s"
  let ?bs = "pre @ (?rb @ ?sb @ [word_of_int v]) @ post"
  have lr: "length ?rb = 32" and ls: "length ?sb = 32"
    by (simp_all add: length_big_endian)
  have len: "65 * (int k + 1) \<le> int (length ?bs)"
    by (simp add: pre lr ls)
  have n1: "nat (65 * int k) = 65 * k" and n2: "nat (65 * int k + 32) = 65 * k + 32"
    and n3: "nat (65 * int k + 64) = 65 * k + 64"
    by simp_all
  have vv: "?bs ! (65 * k + 64) = word_of_int v"
    by (simp add: nth_append pre lr ls)
  have rr: "take 32 (drop (65 * k) ?bs) = ?rb"
    by (simp add: pre lr)
  have ss: "take 32 (drop (65 * k + 32) ?bs) = ?sb"
    by (simp add: pre lr ls)
  have uv: "uint (word_of_int v :: byte) = v"
    using ok by (simp add: valid_vrs_def uint_word_of_int take_bit_eq_mod)
  have fr: "from_bytes_big ?rb = r"
    using ok from_big_endian [of r 32] by (simp add: valid_vrs_def)
  have fs: "from_bytes_big ?sb = s"
    using ok from_big_endian [of s 32] by (simp add: valid_vrs_def)
  have "signature_split ?bs (int k) =
     Inr (uint (?bs ! nat (65 * int k + 64)),
          from_bytes_big (take 32 (drop (nat (65 * int k)) ?bs)),
          from_bytes_big (take 32 (drop (nat (65 * int k + 32)) ?bs)))"
    by (rule signature_split_long [OF _ len]) simp
  then show ?thesis
    by (simp only: n1 n2 n3 vv rr ss uv fr fs)
qed

lemma round_trip_one:
  assumes "valid_vrs vrs"
  shows "\<exists>bs. signature_to_bytes vrs = Inr bs \<and> length bs = 65 \<and> signature_split bs 0 = Inr vrs"
proof -
  obtain v r s where vrs: "vrs = (v, r, s)" by (cases vrs) auto
  have ok: "valid_vrs (v, r, s)" using assms vrs by simp
  have "signature_split ([] @ (big_endian 32 r @ big_endian 32 s @ [word_of_int v]) @ []) (int 0)
         = Inr (v, r, s)"
    by (rule signature_split_chunk [OF ok]) simp
  then show ?thesis
    by (simp add: vrs signature_to_bytes_valid [OF ok] length_big_endian)
qed

lemma round_trip_three:
  assumes "valid_vrs s1" "valid_vrs s2" "valid_vrs s3"
  shows "\<exists>joined. signatures_to_bytes [s1, s2, s3] = Inr joined \<and> length joined = 195 \<and>
           signature_split joined 0 = Inr s1 \<and> signature_split joined 1 = Inr s2 \<and>
           signature_split joined 2 = Inr s3"
proof -
  obtain v1 r1 z1 where e1: "s1 = (v1, r1, z1)" by (cases s1) auto
  obtain v2 r2 z2 where e2: "s2 = (v2, r2, z2)" by (cases s2) auto
  obtain v3 r3 z3 where e3: "s3 = (v3, r3, z3)" by (cases s3) auto
  let ?b1 = "big_endian 32 r1 @ big_endian 32 z1 @ [word_of_int v1]"
  let ?b2 = "big_endian 32 r2 @ big_endian 32 z2 @ [word_of_int v2]"
  let ?b3 = "big_endian 32 r3 @ big_endian 32 z3 @ [word_of_int v3]"
  have ok1: "valid_vrs (v1, r1, z1)" and ok2: "valid_vrs (v2, r2, z2)"
    and ok3: "valid_vrs (v3, r3, z3)"
    using assms e1 e2 e3 by simp_all
  have l1: "length ?b1 = 65" and l2: "length ?b2 = 65" and l3: "length ?b3 = 65"
    by (simp_all add: length_big_endian)
  have j: "signatures_to_bytes [s1, s2, s3] = Inr (?b1 @ ?b2 @ ?b3)"
    by (simp add: e1 e2 e3 signature_to_bytes_valid [OF ok1] signature_to_bytes_valid [OF ok2]
        signature_to_bytes_valid [OF ok3])
  have p1: "signature_split ([] @ ?b1 @ (?b2 @ ?b3)) (int 0) = Inr (v1, r1, z1)"
    by (rule signature_split_chunk [OF ok1]) simp
  have p2: "signature_split (?b1 @ ?b2 @ ?b3) (int 1) = Inr (v2, r2, z2)"
    by (rule signature_split_chunk [OF ok2]) (simp add: length_big_endian)
  have p3: "signature_split ((?b1 @ ?b2) @ ?b3 @ []) (int 2) = Inr (v3, r3, z3)"
    by (rule signature_split_chunk [OF ok3]) (simp add: length_big_endian)
  have a1: "signature_split (?b1 @ ?b2 @ ?b3) 0 = Inr s1" using p1 by (simp add: e1)
  have a2: "signature_split (?b1 @ ?b2 @ ?b3) 1 = Inr s2" using p2 by (simp add: e2)
  have a3: "signature_split (?b1 @ ?b2 @ ?b3) 2 = Inr s3" using p3 by (simp add: e3)
  have len: "length (?b1 @ ?b2 @ ?b3) = 195"
    by (simp add: length_big_endian)
  show ?thesis
    using j a1 a2 a3 len by blast
qed

lemma estimate_gas_foldl:
  "foldl (\<lambda>gas b. if b = 0 then gas + z else gas + d) acc (data :: bytes) =
   acc + int (length (filter (\<lambda>b. b = 0) data)) * z + int (length (filter (\<lambda>b. b \<noteq> 0) data)) * d"
  by (induction data arbitrary: acc) (simp_all add: algebra_simps)

lemma from_bytes_big_zeros: "from_bytes_big (replicate n 0) = 0"
  by (induction n) (simp_all add: from_bytes_big_def)

subsection \<open>Signature codec\<close>




text \<open>
  A negative position counts from the end, as Python's indexing does: the bound above
  does not speak of it.
\<close>

lemma signature_split_negative_position:
  "65 * ((-1) + 1) \<le> int (length ([] :: bytes)) \<and> signature_split [] (-1) = Inl IndexError"
  by (simp add: signature_split_def py_getitem_def)

text \<open>
  C9. A tuple \<open>(v, r, s)\<close> with \<open>v\<close> in \<open>[0, 255]\<close> and \<open>r\<close>, \<open>s\<close> in \<open>[0, 2^256)\<close> is
  encoded without failure and \<open>signature_split\<close> of the encoding at position 0 gives
  the tuple back; three such tuples join to exactly 195 bytes, and \<open>signature_split\<close>
  of the joined bytes at position \<open>i\<close> gives the \<open>i\<close>-th tuple, for \<open>i\<close> in 0, 1, 2.
\<close>

theorem signature_round_trip:
  "(valid_vrs vrs \<longrightarrow>
      (\<exists>bs. signature_to_bytes vrs = Inr bs \<and> signature_split bs 0 = Inr vrs)) \<and>
   (valid_vrs s1 \<and> valid_vrs s2 \<and> valid_vrs s3 \<longrightarrow>
      (\<exists>joined. signatures_to_bytes [s1, s2, s3] = Inr joined \<and> length joined = 195 \<and>
         signature_split joined 0 = Inr s1 \<and> signature_split joined 1 = Inr s2 \<and>
         signature_split joined 2 = Inr s3))"
  using round_trip_one [of vrs] round_trip_three [of s1 s2 s3] by blast

theorem signature_round_trip_witness:
  "valid_vrs (27, 5, 2 ^ 256 - 1) \<and> valid_vrs (0, 0, 0) \<and> valid_vrs (255, 2 ^ 255, 77) \<and>
   (\<exists>bs. signature_to_bytes (27, 5, 2 ^ 256 - 1) = Inr bs \<and>
      signature_split bs 0 = Inr (27, 5, 2 ^ 256 - 1)) \<and>
   (\<exists>joined. signatures_to_bytes [(27, 5, 2 ^ 256 - 1), (0, 0, 0), (255, 2 ^ 255, 77)] = Inr joined \<and>
      length joined = 195 \<and>
      signature_split joined 0 = Inr (27, 5, 2 ^ 256 - 1) \<and>
      signature_split joined 1 = Inr (0, 0, 0) \<and>
      signature_split joined 2 = Inr (255, 2 ^ 255, 77))"
proof -
  have v1: "valid_vrs (27, 5, 2 ^ 256 - 1)" by (simp add: valid_vrs_def)
  have v2: "valid_vrs (0, 0, 0)" by (simp add: valid_vrs_def)
  have v3: "valid_vrs (255, 2 ^ 255, 77)" by (simp add: valid_vrs_def)
  show ?thesis
    using v1 v2 v3
      signature_round_trip [of "(27, 5, 2 ^ 256 - 1)" "(27, 5, 2 ^ 256 - 1)" "(0, 0, 0)"
        "(255, 2 ^ 255, 77)"]
    by blast
qed

subsection \<open>Call-data gas\<close>

text \<open>
  C10. For every byte string, \<open>estimate_data_gas\<close> is the number of zero bytes times
  \<open>GAS_CALL_DATA_ZERO_BYTE\<close> plus the number of nonzero bytes times
  \<open>GAS_CALL_DATA_BYTE\<close>; it is a total function of the bytes (no operation of the loop
  can raise) and gives 0 on the empty byte string.
\<close>

theorem estimate_data_gas_counts:
  "estimate_data_gas zero_byte data_byte data =
     int (length (filter (\<lambda>b. b = 0) data)) * zero_byte +
     int (length (filter (\<lambda>b. b \<noteq> 0) data)) * data_byte \<and>
   estimate_data_gas zero_byte data_byte [] = 0"
  by (simp add: estimate_data_gas_def estimate_gas_foldl)

subsection \<open>Error classifier\<close>

lemma lowered_reasons:
  "py_lower ''Transaction with the same hash was already imported'' =
     ''transaction with the same hash was already imported''"
  "py_lower ''replacement transaction underpriced'' = ''replacement transaction underpriced''"
  "py_lower ''There is another transaction with same nonce in the queue'' =
     ''there is another transaction with same nonce in the queue''"
  "py_lower ''from not found'' = ''from not found''"
  "py_lower ''correct nonce'' = ''correct nonce''"
  "py_lower ''nonce too low'' = ''nonce too low''"
  "py_lower ''insufficient funds'' = ''insufficient funds''"
  "py_lower ''doesn't have enough funds'' = ''doesn't have enough funds''"
  "py_lower ''sender account not recognized'' = ''sender account not recognized''"
  "py_lower ''unknown account'' = ''unknown account''"
  "py_lower ''Transaction cost exceeds current gas limit'' =
     ''transaction cost exceeds current gas limit''"
  "py_lower ''exceeds block gas limit'' = ''exceeds block gas limit''"
  by code_simp+

lemma first_reason_table:
  "first_reason error_with_exception s m =
    (if sublist ''transaction with the same hash was already imported'' s
       then Some (TransactionAlreadyImported m)
     else if sublist ''replacement transaction underpriced'' s
       then Some (ReplacementTransactionUnderpriced m)
     else if sublist ''there is another transaction with same nonce in the queue'' s
       then Some (ReplacementTransactionUnderpriced m)
     else if sublist ''from not found'' s then Some (FromAddressNotFound m)
     else if sublist ''correct nonce'' s then Some (InvalidNonce m)
     else if sublist ''nonce too low'' s then Some (NonceTooLow m)
     else if sublist ''insufficient funds'' s then Some (InsufficientFunds m)
     else if sublist ''doesn't have enough funds'' s then Some (InsufficientFunds m)
     else if sublist ''sender account not recognized'' s
       then Some (SenderAccountNotFoundInNode m)
     else if sublist ''unknown account'' s then Some (UnknownAccount m)
     else if sublist ''transaction cost exceeds current gas limit'' s
       then Some (GasLimitExceeded m)
     else if sublist ''exceeds block gas limit'' s then Some (GasLimitExceeded m)
     else None)"
  unfolding error_with_exception_def first_reason.simps lowered_reasons by (rule refl)

text \<open>
  C2, as amended. A \<open>ValueError\<close> of the wrapped call is classified by the first of
  twelve lowercase substrings, in the declaration order of the dictionary, that occurs
  in the lowercased message; the first is
  \<open>transaction with the same hash was already imported\<close> and the third
  \<open>there is another transaction with same nonce in the queue\<close>. The raised error
  carries the original message. When none occurs, the original \<open>ValueError\<close>
  propagates; a failure that is not a \<open>ValueError\<close> and a success pass through
  unchanged.
\<close>

theorem classifier_declaration_order:
  "(tx_with_exception_handling (Inl (ValueError msg)) :: py_error + 'a) =
    (if sublist ''transaction with the same hash was already imported'' (py_lower msg)
       then Inl (TransactionAlreadyImported msg)
     else if sublist ''replacement transaction underpriced'' (py_lower msg)
       then Inl (ReplacementTransactionUnderpriced msg)
     else if sublist ''there is another transaction with same nonce in the queue'' (py_lower msg)
       then Inl (ReplacementTransactionUnderpriced msg)
     else if sublist ''from not found'' (py_lower msg) then Inl (FromAddressNotFound msg)
     else if sublist ''correct nonce'' (py_lower msg) then Inl (InvalidNonce msg)
     else if sublist ''nonce too low'' (py_lower msg) then Inl (NonceTooLow msg)
     else if sublist ''insufficient funds'' (py_lower msg) then Inl (InsufficientFunds msg)
     else if sublist ''doesn't have enough funds'' (py_lower msg)
       then Inl (InsufficientFunds msg)
     else if sublist ''sender account not recognized'' (py_lower msg)
       then Inl (SenderAccountNotFoundInNode msg)
     else if sublist ''unknown account'' (py_lower msg) then Inl (UnknownAccount msg)
     else if sublist ''transaction cost exceeds current gas limit'' (py_lower msg)
       then Inl (GasLimitExceeded msg)
     else if sublist ''exceeds block gas limit'' (py_lower msg) then Inl (GasLimitExceeded msg)
     else Inl (ValueError msg)) \<and>
   (tx_with_exception_handling (Inl (OtherError msg)) :: py_error + 'a) = Inl (OtherError msg) \<and>
   tx_with_exception_handling (Inr (r :: 'a)) = Inr r"
  by (simp add: tx_with_exception_handling_def first_reason_table)

lemma lowered_nonce_message:
  "py_lower ''Nonce too low, the Correct Nonce is 7'' = ''nonce too low, the correct nonce is 7''"
  by code_simp

theorem classifier_declaration_order_witness:
  "(tx_with_exception_handling (Inl (ValueError ''Nonce too low, the Correct Nonce is 7''))
      :: py_error + bytes) = Inl (InvalidNonce ''Nonce too low, the Correct Nonce is 7'')"
  using classifier_declaration_order
    [where ?'a = bytes and msg = "''Nonce too low, the Correct Nonce is 7''", THEN conjunct1]
  by (simp add: lowered_nonce_message sublist_code(3))

lemma lowered_already_imported: "py_lower ''already imported'' = ''already imported''"
  by code_simp

text \<open>
  C2, as stated, fails: the message \<open>already imported\<close> contains the listed substring
  \<open>already imported\<close> and is not classified; the original failure propagates.
\<close>

theorem already_imported_counterexample:
  "sublist ''already imported'' (py_lower ''already imported'') \<and>
   (tx_with_exception_handling (Inl (ValueError ''already imported'')) :: py_error + bytes)
     = Inl (ValueError ''already imported'')"
  by (simp add: tx_with_exception_handling_def first_reason_table lowered_already_imported
      sublist_code(3))

subsection \<open>Submission retry loop\<close>

lemma classify_underpriced:
  "tx_with_exception_handling (Inl (ValueError ''replacement transaction underpriced'') :: py_error + bytes)
   = Inl (ReplacementTransactionUnderpriced ''replacement transaction underpriced'')"
  by (simp add: tx_with_exception_handling_def first_reason_table lowered_reasons sublist_code(3))

lemma classify_invalid:
  "tx_with_exception_handling (Inl (ValueError ''correct nonce'') :: py_error + bytes)
   = Inl (InvalidNonce ''correct nonce'')"
  by (simp add: tx_with_exception_handling_def first_reason_table lowered_reasons sublist_code(3))

lemma attempt_underpriced:
  "attempt (stubborn_node ''replacement transaction underpriced'') plain_tx use_private st =
   Inl (ReplacementTransactionUnderpriced ''replacement transaction underpriced'')"
  by (simp add: attempt_def stubborn_node_def plain_tx_def classify_underpriced)

lemma send_loop_underpriced:
  "0 < number_errors st \<Longrightarrow>
   send_loop fuel (stubborn_node ''replacement transaction underpriced'') plain_tx use_private True st = None"
proof (induction fuel arbitrary: st)
  case 0
  then show ?case by simp
next
  case (Suc fuel)
  let ?st' = "st\<lparr>nonce := max (nonce st + 1) 0, attempts := Suc (attempts st),
                 nonce_queries := Suc (nonce_queries st)\<rparr>"
  have "0 < number_errors ?st'" using Suc.prems by simp
  then have "send_loop fuel (stubborn_node ''replacement transaction underpriced'') plain_tx use_private True ?st' = None"
    by (rule Suc.IH)
  moreover have "transaction_count (stubborn_node ''replacement transaction underpriced'') (nonce_queries st) = Inr 0"
    by (simp add: stubborn_node_def)
  ultimately show ?case
    using Suc.prems by (simp add: attempt_underpriced)
qed

text \<open>
  The \<open>InvalidNonce\<close> handler spends the budget: against a node that always answers
  \<open>correct nonce\<close>, the sixth submission re-raises.
\<close>

lemma attempt_invalid_nonce:
  "attempt (stubborn_node ''correct nonce'') plain_tx use_private st =
   Inl (InvalidNonce ''correct nonce'')"
  by (simp add: attempt_def stubborn_node_def plain_tx_def classify_invalid)

lemma invalid_nonce_bounded:
  "send_unsigned_transaction 6 (stubborn_node ''correct nonce'') plain_tx (Some ''key'') None True =
     Some (Inl (InvalidNonce ''correct nonce''),
           \<lparr>nonce = 0, number_errors = 0, attempts = 6, nonce_queries = 5\<rparr>)"
proof -
  have n: "tx_nonce plain_tx = Some 0" by (simp add: plain_tx_def)
  have c: "\<And>k. transaction_count (stubborn_node ''correct nonce'') k = Inr 0"
    by (simp add: stubborn_node_def)
  have six: "(6::nat) = Suc (Suc (Suc (Suc (Suc (Suc 0)))))" by simp
  show ?thesis
    unfolding six
    by (simp add: send_unsigned_transaction_def truthy_str_def n c attempt_invalid_nonce)
qed

text \<open>
  C1 at the failing input. With \<open>retry = True\<close> and a node that answers every
  submission with \<open>replacement transaction underpriced\<close>, no amount of fuel lets the
  loop return, with a private key as with a public key: the
  \<open>ReplacementTransactionUnderpriced\<close> handler tests \<open>number_errors\<close> and never
  decrements it.
\<close>

theorem replacement_underpriced_never_returns:
  "send_unsigned_transaction fuel (stubborn_node ''replacement transaction underpriced'')
     plain_tx (Some ''key'') None True = None \<and>
   send_unsigned_transaction fuel (stubborn_node ''replacement transaction underpriced'')
     plain_tx None (Some ''0xAb'') True = None"
proof -
  have n: "tx_nonce plain_tx = Some 0" by (simp add: plain_tx_def)
  show ?thesis
    by (simp add: send_unsigned_transaction_def truthy_str_def n send_loop_underpriced)
qed

subsection \<open>Batched accessors\<close>

lemma perform_log: "snd (perform nd log req) = log @ [req]"
  by (simp add: perform_def)

lemma perform_reply: "fst (perform nd log req) = nd (length log) req"
  by (simp add: perform_def)

lemma post_and_each_log:
  "snd (post_and_each nd log payload per_result) = log @ [HttpPost payload]"
  by (simp add: post_and_each_def perform_def)

text \<open>
  C6, as amended. Given an empty list, \<open>get_transactions\<close>,
  \<open>get_transaction_receipts\<close>, \<open>get_blocks\<close> and \<open>trace_transactions\<close> return the
  empty list and leave the request log as it was: no request is made.
  \<open>get_balances\<close> with an empty token list still makes one request, the batch that
  holds the single native-balance query.
\<close>

theorem batched_accessors_empty:
  "get_transactions l nd log [] = (Inr [], log) \<and>
   get_transaction_receipts l nd log [] = (Inr [], log) \<and>
   get_blocks l nd log [] full_transactions = (Inr [], log) \<and>
   trace_transactions l nd log [] = (Inr [], log) \<and>
   snd (get_balances l nd log address []) = log @ [HttpPost (PList [balance_query address])]"
  by (simp add: get_transactions_def get_transaction_receipts_def get_blocks_def
      trace_transactions_def get_balances_def balance_queries_def perform_def enumerate_eq_zip)

text \<open>
  C6, as stated, fails for balances: with an empty token list \<open>get_balances\<close> posts
  one batch and returns one entry, the native balance.
\<close>

theorem get_balances_empty_counterexample:
  "get_balances plain_lib empty_results_node [] ''0xAb'' [] =
     (Inr [\<lparr>token_address = None, balance = 0\<rparr>], [HttpPost (PList [balance_query ''0xAb''])])"
  by (simp add: get_balances_def balance_queries_def perform_def empty_results_node_def
      decode_balance_def enumerate_eq_zip)

subsection \<open>get_balances\<close>

lemma each_Inr:
  "each f xs = Inr ys \<Longrightarrow> length ys = length xs \<and> (\<forall>i<length xs. f (xs ! i) = Inr (ys ! i))"
proof (induction xs arbitrary: ys)
  case Nil
  then show ?case by simp
next
  case (Cons x xs)
  from Cons.prems obtain y ys' where fx: "f x = Inr y" and rest: "each f xs = Inr ys'"
    and ys: "ys = y # ys'"
    by (auto split: sum.splits)
  from Cons.IH [OF rest] have len: "length ys' = length xs"
    and nth: "\<forall>i<length xs. f (xs ! i) = Inr (ys' ! i)" by simp_all
  show ?case
  proof (intro conjI allI impI)
    show "length ys = length (x # xs)" using len ys by simp
  next
    fix i assume "i < length (x # xs)"
    then show "f ((x # xs) ! i) = Inr (ys ! i)"
      using fx nth ys by (cases i) simp_all
  qed
qed

lemma each_nth_Inr:
  "(\<And>i. i < length xs \<Longrightarrow> f (xs ! i) = Inr (g i)) \<Longrightarrow> each f xs = Inr (map g [0..<length xs])"
proof (induction xs arbitrary: g)
  case Nil
  then show ?case by simp
next
  case (Cons x xs)
  have h: "f x = Inr (g 0)" using Cons.prems [of 0] by simp
  have t: "each f xs = Inr (map (\<lambda>i. g (Suc i)) [0..<length xs])"
  proof (rule Cons.IH)
    fix i assume "i < length xs"
    then show "f (xs ! i) = Inr (g (Suc i))" using Cons.prems [of "Suc i"] by simp
  qed
  have "map g [0..<length (x # xs)] = g 0 # map (\<lambda>i. g (Suc i)) [0..<length xs]"
    by (simp add: map_upt_Suc del: upt_Suc)
  then show ?case using h t by simp
qed

lemma balance_queries_shape:
  "length (balance_queries address tokens) = length tokens + 1 \<and>
   balance_queries address tokens ! 0 =
     PDict [(''jsonrpc'', PStr ''2.0''),
            (''method'', PStr ''eth_getBalance''),
            (''params'', PList [PStr address, PStr ''latest'']),
            (''id'', PInt 0)] \<and>
   (\<forall>i<length tokens.
      balance_queries address tokens ! (i + 1) =
        PDict [(''jsonrpc'', PStr ''2.0''),
               (''method'', PStr ''eth_call''),
               (''params'',
                  PList [PDict [(''to'', PStr (tokens ! i)),
                                (''data'',
                                   PStr (''0x70a08231'' @
                                         replicate (64 - length (py_lower (remove_0x address)))
                                           (CHR ''0'') @
                                         py_lower (remove_0x address)))],
                         PStr ''latest'']),
               (''id'', PInt (int i + 1))])"
  by (simp add: balance_queries_def balance_query_def token_query_def pad64_def nth_enumerate_eq)

lemma py_subscript_Inr:
  "py_subscript d k = Inr r \<Longrightarrow> \<exists>kvs. d = PDict kvs \<and> map_of kvs k = Some r"
proof (cases d)
  case (PDict kvs)
  assume "py_subscript d k = Inr r"
  then have "map_of kvs k = Some r"
    unfolding PDict by (cases "map_of kvs k") simp_all
  then show ?thesis using PDict by blast
qed simp_all

lemma decode_balance_Inr:
  assumes ok: "decode_balance l (t, d) = Inr b"
  shows "token_address b = t \<and>
   (\<exists>kvs r. d = PDict kvs \<and> map_of kvs ''result'' = Some r \<and>
      (if r = PStr ''0x'' then balance b = 0 else int16 l r = Inr (balance b)))"
proof (cases "py_subscript d ''result''")
  case (Inl e)
  then show ?thesis using ok by (simp add: decode_balance_def)
next
  case (Inr r)
  from py_subscript_Inr [OF Inr] obtain kvs where d: "d = PDict kvs"
    and m: "map_of kvs ''result'' = Some r" by blast
  show ?thesis
  proof (cases "r = PStr ''0x''")
    case True
    then have "b = \<lparr>token_address = t, balance = 0\<rparr>"
      using ok Inr by (simp add: decode_balance_def)
    then show ?thesis using d m True by simp
  next
    case False
    show ?thesis
    proof (cases "int16 l r")
      case (Inl e)
      then show ?thesis using ok \<open>py_subscript d ''result'' = Inr r\<close> False
        by (simp add: decode_balance_def)
    next
      case (Inr n)
      then have "b = \<lparr>token_address = t, balance = n\<rparr>"
        using ok \<open>py_subscript d ''result'' = Inr r\<close> False by (simp add: decode_balance_def)
      then show ?thesis using d m False Inr by simp
    qed
  qed
qed

lemma decode_balance_result:
  assumes d: "d = PDict kvs" and m: "map_of kvs ''result'' = Some r"
    and c: "if r = PStr ''0x'' then n = 0 else int16 l r = Inr n"
  shows "decode_balance l (t, d) = Inr \<lparr>token_address = t, balance = n\<rparr>"
proof -
  have s: "py_subscript d ''result'' = Inr r" using d m by simp
  show ?thesis
  proof (cases "r = PStr ''0x''")
    case True
    then show ?thesis using s c by (simp add: decode_balance_def)
  next
    case False
    then have "int16 l r = Inr n" using c by simp
    then show ?thesis using s False by (simp add: decode_balance_def)
  qed
qed

lemma get_balances_aligned:
  assumes reply: "nd (length log) (HttpPost (PList (balance_queries address tokens))) = Inr (PList datas)"
    and ok: "fst (get_balances l nd log address tokens) = Inr bs"
  shows "length bs = min (length tokens + 1) (length datas) \<and>
         (\<forall>i<length bs. token_address (bs ! i) = (None # map Some tokens) ! i \<and>
            (\<exists>kvs r. datas ! i = PDict kvs \<and> map_of kvs ''result'' = Some r \<and>
               (if r = PStr ''0x'' then balance (bs ! i) = 0
                else int16 l r = Inr (balance (bs ! i)))))"
proof -
  let ?zs = "zip (None # map Some tokens) datas"
  have e: "each (decode_balance l) ?zs = Inr bs"
    using ok reply by (simp add: get_balances_def perform_def)
  from each_Inr [OF e] have len: "length bs = length ?zs"
    and nth: "\<forall>i<length ?zs. decode_balance l (?zs ! i) = Inr (bs ! i)" by simp_all
  have l1: "length bs = min (length tokens + 1) (length datas)" using len by simp
  have l2: "\<forall>i<length bs. token_address (bs ! i) = (None # map Some tokens) ! i \<and>
            (\<exists>kvs r. datas ! i = PDict kvs \<and> map_of kvs ''result'' = Some r \<and>
               (if r = PStr ''0x'' then balance (bs ! i) = 0
                else int16 l r = Inr (balance (bs ! i))))"
  proof (intro allI impI)
    fix i assume i: "i < length bs"
    then have iz: "i < length ?zs" using len by simp
    then have z: "?zs ! i = ((None # map Some tokens) ! i, datas ! i)" by simp
    have d: "decode_balance l ((None # map Some tokens) ! i, datas ! i) = Inr (bs ! i)"
      using nth iz z by simp
    show "token_address (bs ! i) = (None # map Some tokens) ! i \<and>
            (\<exists>kvs r. datas ! i = PDict kvs \<and> map_of kvs ''result'' = Some r \<and>
               (if r = PStr ''0x'' then balance (bs ! i) = 0
                else int16 l r = Inr (balance (bs ! i))))"
      using decode_balance_Inr [OF d] by simp
  qed
  show ?thesis using l1 l2 by blast
qed

lemma get_balances_decoded:
  assumes reply: "nd (length log) (HttpPost (PList (balance_queries address tokens))) = Inr (PList datas)"
    and each_ok: "\<forall>i<length datas. datas ! i = PDict (kvs i) \<and> map_of (kvs i) ''result'' = Some (rs i) \<and>
        (if rs i = PStr ''0x'' then ns i = 0 else int16 l (rs i) = Inr (ns i))"
  shows "fst (get_balances l nd log address tokens) =
     Inr (map (\<lambda>i. \<lparr>token_address = (None # map Some tokens) ! i, balance = ns i\<rparr>)
            [0..<min (length tokens + 1) (length datas)])"
proof -
  let ?ts = "None # map Some tokens"
  let ?zs = "zip ?ts datas"
  have len: "length ?zs = min (length tokens + 1) (length datas)" by simp
  have "each (decode_balance l) ?zs =
      Inr (map (\<lambda>i. \<lparr>token_address = ?ts ! i, balance = ns i\<rparr>) [0..<length ?zs])"
  proof (rule each_nth_Inr)
    fix i assume i: "i < length ?zs"
    then have id: "i < length datas" by simp
    have z: "?zs ! i = (?ts ! i, datas ! i)" using i by simp
    from each_ok id have a: "datas ! i = PDict (kvs i)"
      and b: "map_of (kvs i) ''result'' = Some (rs i)"
      and c: "if rs i = PStr ''0x'' then ns i = 0 else int16 l (rs i) = Inr (ns i)"
      by simp_all
    show "decode_balance l (?zs ! i) = Inr \<lparr>token_address = ?ts ! i, balance = ns i\<rparr>"
      unfolding z by (rule decode_balance_result [OF a b c])
  qed
  then have e: "each (decode_balance l) ?zs =
      Inr (map (\<lambda>i. \<lparr>token_address = ?ts ! i, balance = ns i\<rparr>)
             [0..<min (length tokens + 1) (length datas)])"
    by (simp only: len)
  show ?thesis
    using reply e by (simp only: get_balances_def perform_def prod.case fst_conv sum.case py_iter.simps)
qed

text \<open>
  C7, as amended. For every address and token list of length \<open>N\<close>, \<open>get_balances\<close>
  adds exactly one request to the log, a batch of \<open>N + 1\<close> queries: query 0 is
  \<open>eth_getBalance\<close> of the address at \<open>latest\<close> with \<open>id\<close> 0; query \<open>i + 1\<close> is an
  \<open>eth_call\<close> to the \<open>i\<close>-th token with the \<open>balanceOf\<close> selector \<open>0x70a08231\<close>
  followed by the lowercased address without \<open>0x\<close>, zero-padded on the left to 64
  characters, with \<open>id\<close> \<open>i + 1\<close>. Entry \<open>i\<close> of the result pairs entry \<open>i\<close> of
  \<open>[None] + erc20_addresses\<close> with entry \<open>i\<close> of the reply in the order received (the
  \<open>id\<close> of a response is not read, and the result is as long as the shorter of the
  two): its balance is 0 when the result is \<open>0x\<close> and \<open>int(result, 16)\<close> otherwise.
  When every entry of the reply is a dictionary whose result is \<open>0x\<close> or is accepted
  by \<open>int(result, 16)\<close>, the call returns these entries and does not fail.
\<close>

theorem get_balances_single_batch:
  "snd (get_balances l nd log address tokens) =
     log @ [HttpPost (PList (balance_queries address tokens))] \<and>
   length (balance_queries address tokens) = length tokens + 1 \<and>
   balance_queries address tokens ! 0 =
     PDict [(''jsonrpc'', PStr ''2.0''),
            (''method'', PStr ''eth_getBalance''),
            (''params'', PList [PStr address, PStr ''latest'']),
            (''id'', PInt 0)] \<and>
   (\<forall>i<length tokens.
      balance_queries address tokens ! (i + 1) =
        PDict [(''jsonrpc'', PStr ''2.0''),
               (''method'', PStr ''eth_call''),
               (''params'',
                  PList [PDict [(''to'', PStr (tokens ! i)),
                                (''data'',
                                   PStr (''0x70a08231'' @
                                         replicate (64 - length (py_lower (remove_0x address)))
                                           (CHR ''0'') @
                                         py_lower (remove_0x address)))],
                         PStr ''latest'']),
               (''id'', PInt (int i + 1))]) \<and>
   (nd (length log) (HttpPost (PList (balance_queries address tokens))) = Inr (PList datas) \<and>
    fst (get_balances l nd log address tokens) = Inr bs \<longrightarrow>
      length bs = min (length tokens + 1) (length datas) \<and>
      (\<forall>i<length bs. token_address (bs ! i) = (None # map Some tokens) ! i \<and>
         (\<exists>kvs r. datas ! i = PDict kvs \<and> map_of kvs ''result'' = Some r \<and>
            (if r = PStr ''0x'' then balance (bs ! i) = 0
             else int16 l r = Inr (balance (bs ! i)))))) \<and>
   (nd (length log) (HttpPost (PList (balance_queries address tokens))) = Inr (PList datas) \<and>
    (\<forall>i<length datas. datas ! i = PDict (kvs i) \<and> map_of (kvs i) ''result'' = Some (rs i) \<and>
        (if rs i = PStr ''0x'' then ns i = 0 else int16 l (rs i) = Inr (ns i))) \<longrightarrow>
      fst (get_balances l nd log address tokens) =
        Inr (map (\<lambda>i. \<lparr>token_address = (None # map Some tokens) ! i, balance = ns i\<rparr>)
               [0..<min (length tokens + 1) (length datas)]))"
  (is "?c1 \<and> ?c2 \<and> ?c3 \<and> ?c4 \<and> (?h5 \<longrightarrow> ?g5) \<and> (?h6 \<longrightarrow> ?g6)")
proof -
  have c1: ?c1
    by (simp add: get_balances_def perform_def)
  have c2: ?c2 and c3: ?c3 and c4: ?c4
    using balance_queries_shape [of address tokens] by blast+
  have c5: "?h5 \<longrightarrow> ?g5"
  proof
    assume h: ?h5
    show ?g5
      by (rule get_balances_aligned [where nd = nd and log = log and address = address and
            tokens = tokens and datas = datas and l = l and bs = bs,
            OF conjunct1 [OF h] conjunct2 [OF h]])
  qed
  have c6: "?h6 \<longrightarrow> ?g6"
  proof
    assume h: ?h6
    show ?g6
      by (rule get_balances_decoded [where nd = nd and log = log and address = address and
            tokens = tokens and datas = datas and kvs = kvs and rs = rs and ns = ns and l = l,
            OF conjunct1 [OF h] conjunct2 [OF h]])
  qed
  show ?thesis
    by (rule conjI [OF c1 conjI [OF c2 conjI [OF c3 conjI [OF c4 conjI [OF c5 c6]]]]])
qed

lemma lowered_sample_address: "py_lower ''Ab'' = ''ab''"
  by code_simp

lemma hex_ff: "hex_to_nat ''ff'' = 255"
  by code_simp

lemma int16_hex_ff: "int16 hex_lib (PStr ''0xff'') = Inr 255"
  by (simp add: hex_lib_def hex_ff)

text \<open>
  One token and a node that answers in request order: the native balance is 0 (result
  \<open>0x\<close>) and the token balance 255 (result \<open>0xff\<close>).
\<close>

theorem get_balances_single_batch_witness:
  "ordered_node (length ([] :: request list)) (HttpPost (PList (balance_queries ''0xAb'' [''t1''])))
     = Inr (PList [PDict [(''id'', PInt 0), (''result'', PStr ''0x'')],
                   PDict [(''id'', PInt 1), (''result'', PStr ''0xff'')]]) \<and>
   int16 hex_lib (PStr ''0xff'') = Inr 255 \<and>
   fst (get_balances hex_lib ordered_node [] ''0xAb'' [''t1'']) =
     Inr [\<lparr>token_address = None, balance = 0\<rparr>, \<lparr>token_address = Some ''t1'', balance = 255\<rparr>] \<and>
   snd (get_balances hex_lib ordered_node [] ''0xAb'' [''t1'']) =
     [HttpPost (PList (balance_queries ''0xAb'' [''t1'']))] \<and>
   length (balance_queries ''0xAb'' [''t1'']) = 2 \<and>
   balance_queries ''0xAb'' [''t1''] ! 0 =
     PDict [(''jsonrpc'', PStr ''2.0''),
            (''method'', PStr ''eth_getBalance''),
            (''params'', PList [PStr ''0xAb'', PStr ''latest'']),
            (''id'', PInt 0)] \<and>
   balance_queries ''0xAb'' [''t1''] ! 1 =
     PDict [(''jsonrpc'', PStr ''2.0''),
            (''method'', PStr ''eth_call''),
            (''params'',
               PList [PDict [(''to'', PStr ''t1''),
                             (''data'',
                                PStr (''0x70a08231'' @ replicate 62 (CHR ''0'') @ ''ab''))],
                      PStr ''latest'']),
            (''id'', PInt 1)]"
proof -
  let ?d0 = "[(''id'', PInt 0), (''result'', PStr ''0x'')]"
  let ?d1 = "[(''id'', PInt 1), (''result'', PStr ''0xff'')]"
  let ?kvs = "\<lambda>i::nat. if i = 0 then ?d0 else ?d1"
  let ?rs = "\<lambda>i::nat. if i = 0 then PStr ''0x'' else PStr ''0xff''"
  let ?ns = "\<lambda>i::nat. if i = 0 then (0::int) else 255"
  note T = get_balances_single_batch [where l = hex_lib and nd = ordered_node and log = "[]"
      and address = "''0xAb''" and tokens = "[''t1'']" and datas = "[PDict ?d0, PDict ?d1]"
      and bs = "[]" and kvs = ?kvs and rs = ?rs and ns = ?ns]
  have r: "ordered_node (length ([] :: request list))
      (HttpPost (PList (balance_queries ''0xAb'' [''t1''])))
     = Inr (PList [PDict ?d0, PDict ?d1])"
    by (simp add: ordered_node_def)
  have hyp: "\<forall>i<length [PDict ?d0, PDict ?d1].
      [PDict ?d0, PDict ?d1] ! i = PDict (?kvs i) \<and> map_of (?kvs i) ''result'' = Some (?rs i) \<and>
      (if ?rs i = PStr ''0x'' then ?ns i = 0 else int16 hex_lib (?rs i) = Inr (?ns i))"
  proof (intro allI impI)
    fix i :: nat assume "i < length [PDict ?d0, PDict ?d1]"
    then have "i = 0 \<or> i = 1" by auto
    then show "[PDict ?d0, PDict ?d1] ! i = PDict (?kvs i) \<and>
        map_of (?kvs i) ''result'' = Some (?rs i) \<and>
        (if ?rs i = PStr ''0x'' then ?ns i = 0 else int16 hex_lib (?rs i) = Inr (?ns i))"
      using int16_hex_ff by auto
  qed
  have s: "snd (get_balances hex_lib ordered_node [] ''0xAb'' [''t1'']) =
        [HttpPost (PList (balance_queries ''0xAb'' [''t1'']))]"
    using T [THEN conjunct1] by simp
  have ln: "length (balance_queries ''0xAb'' [''t1'']) = 2"
    using T [THEN conjunct2, THEN conjunct1] by simp
  have q0: "balance_queries ''0xAb'' [''t1''] ! 0 =
       PDict [(''jsonrpc'', PStr ''2.0''), (''method'', PStr ''eth_getBalance''),
              (''params'', PList [PStr ''0xAb'', PStr ''latest'']), (''id'', PInt 0)]"
    by (rule T [THEN conjunct2, THEN conjunct2, THEN conjunct1])
  have q1: "balance_queries ''0xAb'' [''t1''] ! 1 =
       PDict [(''jsonrpc'', PStr ''2.0''), (''method'', PStr ''eth_call''),
              (''params'',
                 PList [PDict [(''to'', PStr ''t1''),
                               (''data'',
                                  PStr (''0x70a08231'' @ replicate 62 (CHR ''0'') @ ''ab''))],
                        PStr ''latest'']),
              (''id'', PInt 1)]"
    using T [THEN conjunct2, THEN conjunct2, THEN conjunct2, THEN conjunct1, rule_format, of 0]
    by (simp add: lowered_sample_address)
  have up: "[0..<2] = [0, Suc 0]" by (simp add: numeral_2_eq_2)
  have "fst (get_balances hex_lib ordered_node [] ''0xAb'' [''t1'']) =
        Inr (map (\<lambda>i. \<lparr>token_address = (None # map Some [''t1'']) ! i, balance = ?ns i\<rparr>)
               [0..<min (length [''t1''] + 1) (length [PDict ?d0, PDict ?d1])])"
    by (rule T [THEN conjunct2, THEN conjunct2, THEN conjunct2, THEN conjunct2, THEN conjunct2,
          rule_format, OF conjI [OF r hyp]])
  then have f: "fst (get_balances hex_lib ordered_node [] ''0xAb'' [''t1'']) =
       Inr [\<lparr>token_address = None, balance = 0\<rparr>, \<lparr>token_address = Some ''t1'', balance = 255\<rparr>]"
    by (simp add: up)
  show ?thesis
    by (rule conjI [OF r conjI [OF int16_hex_ff conjI [OF f conjI [OF s conjI [OF ln conjI [OF q0 q1]]]]]])
qed

text \<open>
  C7, as stated, fails on the alignment with the input: when the node returns the two
  responses of a batch in the other order (the response to \<open>id\<close> 1 first), the first
  entry of the result, the native one, carries the token's balance 255 and the token's
  entry carries the native balance 0.
\<close>

theorem get_balances_swapped_counterexample:
  "swapped_node (length ([] :: request list)) (HttpPost (PList (balance_queries ''0xAb'' [''t1'']))) =
     Inr (PList [PDict [(''id'', PInt 1), (''result'', PStr ''0xff'')],
                 PDict [(''id'', PInt 0), (''result'', PStr ''0x'')]]) \<and>
   fst (get_balances hex_lib swapped_node [] ''0xAb'' [''t1'']) =
     Inr [\<lparr>token_address = None, balance = 255\<rparr>, \<lparr>token_address = Some ''t1'', balance = 0\<rparr>]"
  by (simp add: swapped_node_def get_balances_def perform_def decode_balance_def int16_hex_ff)

subsection \<open>Traces\<close>

lemma trace_transactions_log:
  "snd (trace_transactions l nd log tx_hashes) =
     (if tx_hashes = [] then log
      else log @ [HttpPost (batch_payload ''trace_transaction'' (\<lambda>h. [PStr (hexbytes_hex h)])
                     tx_hashes)])"
  by (simp add: trace_transactions_def post_and_each_log)

lemma decode_oops:
  "decode_traces plain_lib (PList [PStr ''oops'']) =
     Inl (ParityTraceDecodeException ''Expected dictionary, but found unexpected trace '')"
  by (simp add: decode_traces_def decode_trace_def plain_lib_def)

lemma decode_good:
  "decode_traces plain_lib (PList [good_trace]) = Inr (PList [PDict [(''action'', PDict [])]])"
  by (simp add: decode_traces_def decode_trace_def decode_trace_action_def good_trace_def)

text \<open>
  C3 at the failing input. \<open>trace_transactions\<close> never makes more than its one
  batched request, whatever the node answers. Against a node whose first reply holds a
  malformed trace and whose second reply would be well formed, it raises
  \<open>ParityTraceDecodeException\<close> after one request, while \<open>trace_transaction\<close> asks
  again and returns the decoded traces of the second reply.
\<close>

theorem trace_transactions_no_second_request:
  "snd (trace_transactions l nd log tx_hashes) =
     (if tx_hashes = [] then log
      else log @ [HttpPost (batch_payload ''trace_transaction'' (\<lambda>h. [PStr (hexbytes_hex h)])
                     tx_hashes)]) \<and>
   trace_transactions plain_lib flaky_node [] [[]] =
     (Inl (ParityTraceDecodeException ''Expected dictionary, but found unexpected trace ''),
      [HttpPost (batch_payload ''trace_transaction'' (\<lambda>h. [PStr (hexbytes_hex h)]) [[]])]) \<and>
   trace_transaction plain_lib flaky_node [] [] =
     (Inr (PList [PDict [(''action'', PDict [])]]),
      [RpcCall ''trace_transaction'' [PBytes []], RpcCall ''trace_transaction'' [PBytes []]])"
proof -
  have b: "trace_transactions plain_lib flaky_node [] [[]] =
     (Inl (ParityTraceDecodeException ''Expected dictionary, but found unexpected trace ''),
      [HttpPost (batch_payload ''trace_transaction'' (\<lambda>h. [PStr (hexbytes_hex h)]) [[]])])"
    by (simp add: trace_transactions_def post_and_each_def perform_def flaky_node_def decode_oops)
  have c: "trace_transaction plain_lib flaky_node [] [] =
     (Inr (PList [PDict [(''action'', PDict [])]]),
      [RpcCall ''trace_transaction'' [PBytes []], RpcCall ''trace_transaction'' [PBytes []]])"
    by (simp add: trace_transaction_def decode_with_retry_def call_and_decode_def perform_def
        flaky_node_def decode_oops decode_good)
  show ?thesis using trace_transactions_log [of l nd log tx_hashes] b c by simp
qed

subsection \<open>trace_filter\<close>

lemma hex_digits_listed: "\<forall>d\<in>set [0..<16]. hex_digit_value (hex_digit d) = d"
  by code_simp

lemma hex_digit_value_inverse: "d < 16 \<Longrightarrow> hex_digit_value (hex_digit d) = d"
  using hex_digits_listed by simp

lemma hex_to_nat_snoc: "hex_to_nat (s @ [c]) = 16 * hex_to_nat s + hex_digit_value c"
  by (simp add: hex_to_nat_def)

lemma hex_to_nat_hex_nat: "hex_to_nat (hex_nat n) = n"
proof (induction n rule: hex_nat.induct)
  case (1 n)
  show ?case
  proof (cases "n < 16")
    case True
    then have "hex_nat n = [hex_digit n]"
      by (subst hex_nat.simps) simp
    then show ?thesis
      using True by (simp add: hex_digit_value_inverse hex_to_nat_def)
  next
    case False
    have m: "n mod 16 < 16" by simp
    have "hex_nat n = hex_nat (n div 16) @ [hex_digit (n mod 16)]"
      using False by (subst hex_nat.simps) simp
    then show ?thesis
      using "1.IH" [OF False] False
      by (simp add: hex_to_nat_snoc hex_digit_value_inverse [OF m])
  qed
qed

lemma percent_x_reads_back: "0 \<le> n \<Longrightarrow> hex_to_nat (percent_x n) = nat n"
  by (simp add: percent_x_def hex_to_nat_hex_nat)

lemma decode_with_retry_log:
  "snd (decode_with_retry l nd log req) = log @ [req] \<or>
   snd (decode_with_retry l nd log req) = log @ [req, req]"
  by (auto simp: decode_with_retry_def call_and_decode_def perform_def
      split: prod.splits sum.splits py_error.splits)

lemma from_block_parameter:
  "map_of (trace_filter_parameters from_block to_block from_address to_address after count)
     ''fromBlock'' =
   (if from_block = 0 then None else Some (PStr (''0x'' @ percent_x from_block)))"
  by (simp add: trace_filter_parameters_def)

lemma to_block_parameter:
  "map_of (trace_filter_parameters from_block to_block from_address to_address after count)
     ''toBlock'' =
   (if truthy_int to_block then Some (PStr (''0x'' @ percent_x (the to_block))) else None)"
  by (simp add: trace_filter_parameters_def)

text \<open>
  C5, as amended. When \<open>from_address\<close> or \<open>to_address\<close> is a non-empty list,
  \<open>trace_filter\<close> sends the \<open>trace_filter\<close> call once or (after a decoding failure)
  twice with the same parameters. They hold \<open>fromBlock\<close> as \<open>0x\<close> followed by the
  hexadecimal digits for every \<open>from_block\<close> other than 0, and no \<open>fromBlock\<close> at all
  for \<open>from_block = 0\<close>; likewise \<open>toBlock\<close> for a \<open>to_block\<close> that is given and not 0.
  The digits of a block number that is not negative read back as that number.
\<close>

theorem trace_filter_block_numbers:
  "truthy_list from_address \<or> truthy_list to_address \<Longrightarrow>
   (snd (trace_filter l nd log from_block to_block from_address to_address after count) =
      log @ [RpcCall ''trace_filter''
               [PDict (trace_filter_parameters from_block to_block from_address to_address
                         after count)]] \<or>
    snd (trace_filter l nd log from_block to_block from_address to_address after count) =
      log @ [RpcCall ''trace_filter''
               [PDict (trace_filter_parameters from_block to_block from_address to_address
                         after count)],
             RpcCall ''trace_filter''
               [PDict (trace_filter_parameters from_block to_block from_address to_address
                         after count)]]) \<and>
   map_of (trace_filter_parameters from_block to_block from_address to_address after count)
     ''fromBlock'' =
     (if from_block = 0 then None else Some (PStr (''0x'' @ percent_x from_block))) \<and>
   map_of (trace_filter_parameters from_block to_block from_address to_address after count)
     ''toBlock'' =
     (if truthy_int to_block then Some (PStr (''0x'' @ percent_x (the to_block))) else None) \<and>
   (0 \<le> from_block \<longrightarrow> hex_to_nat (percent_x from_block) = nat from_block)"
  using decode_with_retry_log [of l nd log "RpcCall ''trace_filter''
               [PDict (trace_filter_parameters from_block to_block from_address to_address
                         after count)]"]
  by (simp add: trace_filter_def from_block_parameter to_block_parameter percent_x_reads_back)

lemma hex_255: "percent_x 255 = ''ff''"
  by code_simp

theorem trace_filter_block_numbers_witness:
  "truthy_list (Some [''0xabc'']) \<and>
   map_of (trace_filter_parameters 255 (Some 255) (Some [''0xabc'']) None None None) ''fromBlock''
     = Some (PStr ''0xff'') \<and>
   map_of (trace_filter_parameters 255 (Some 255) (Some [''0xabc'']) None None None) ''toBlock''
     = Some (PStr ''0xff'') \<and>
   hex_to_nat ''ff'' = 255"
proof -
  have t: "truthy_list (Some [''0xabc''])" by (simp add: truthy_list_def)
  have i: "truthy_int (Some 255)" by (simp add: truthy_int_def)
  from t have "truthy_list (Some [''0xabc'']) \<or> truthy_list (None :: string list option)" by simp
  from trace_filter_block_numbers [OF this, of plain_lib flaky_node "[]" 255 "Some 255" None None]
  show ?thesis using t i by (simp add: hex_255)
qed

text \<open>
  C5, as stated, fails at \<open>from_block = 0\<close>: the request carries no \<open>fromBlock\<close>.
\<close>

theorem trace_filter_zero_counterexample:
  "truthy_list (Some [''0xabc'']) \<and>
   map_of (trace_filter_parameters 0 None (Some [''0xabc'']) None None None) ''fromBlock'' = None \<and>
   snd (trace_filter plain_lib flaky_node [] 0 None (Some [''0xabc'']) None None None) =
     [RpcCall ''trace_filter'' [PDict [(''fromAddress'', PList [PStr ''0xabc''])]],
      RpcCall ''trace_filter'' [PDict [(''fromAddress'', PList [PStr ''0xabc''])]]]"
  by (simp add: truthy_list_def truthy_int_def trace_filter_parameters_def trace_filter_def
      decode_with_retry_def call_and_decode_def perform_def flaky_node_def decode_oops)

subsection \<open>Transfer logs\<close>

lemma abi_word_first: "32 \<le> length data \<Longrightarrow> abi_word data 0 = Inr (take 32 data)"
  by (simp add: abi_word_def)

lemma abi_address_first:
  "address_word t1 \<Longrightarrow> abi_address (t1 @ rest) 0 = Inr (drop 12 t1)"
  by (simp add: abi_address_def abi_word_def address_word_def)

lemma abi_address_second:
  "length t1 = 32 \<Longrightarrow> address_word t2 \<Longrightarrow> abi_address (t1 @ t2 @ rest) 1 = Inr (drop 12 t2)"
  by (simp add: abi_address_def abi_word_def address_word_def)

lemma abi_uint256_third:
  "length t1 = 32 \<Longrightarrow> length t2 = 32 \<Longrightarrow> length t3 = 32 \<Longrightarrow>
   abi_uint256 (t1 @ t2 @ t3) 2 = Inr (from_bytes_big t3)"
  by (simp add: abi_uint256_def abi_word_def)

lemma decode_erc20_shape:
  assumes "topics = [TRANSFER_TOPIC, t1, t2]" "32 \<le> length data" "address_word t1" "address_word t2"
  shows "decode_erc20_or_erc721_log checksum data topics =
     Inr (Some (Erc20Transfer (checksum (hexbytes_hex (drop 12 t1)))
                  (checksum (hexbytes_hex (drop 12 t2))) (from_bytes_big (take 32 data))))"
proof -
  have l1: "length t1 = 32" using assms(3) by (simp add: address_word_def)
  have v: "abi_uint256 data 0 = Inr (from_bytes_big (take 32 data))"
    using assms(2) by (simp add: abi_uint256_def abi_word_first)
  have a: "abi_address (t1 @ t2) 0 = Inr (drop 12 t1)"
    using abi_address_first [OF assms(3), of t2] .
  have b: "abi_address (t1 @ t2) 1 = Inr (drop 12 t2)"
    using abi_address_second [OF l1 assms(4), of "[]"] by simp
  show ?thesis
    by (simp add: decode_erc20_or_erc721_log_def decode_erc20_log_def assms(1) v a b [unfolded One_nat_def])
qed

lemma decode_erc721_shape:
  assumes "topics = [TRANSFER_TOPIC, t1, t2, t3]" "address_word t1" "address_word t2" "length t3 = 32"
  shows "decode_erc20_or_erc721_log checksum data topics =
     Inr (Some (Erc721Transfer (checksum (hexbytes_hex (drop 12 t1)))
                  (checksum (hexbytes_hex (drop 12 t2))) (from_bytes_big t3)))"
proof -
  have l1: "length t1 = 32" using assms(2) by (simp add: address_word_def)
  have l2: "length t2 = 32" using assms(3) by (simp add: address_word_def)
  have a: "abi_address (t1 @ t2 @ t3) 0 = Inr (drop 12 t1)"
    using abi_address_first [OF assms(2)] .
  have b: "abi_address (t1 @ t2 @ t3) 1 = Inr (drop 12 t2)"
    using abi_address_second [OF l1 assms(3)] .
  have c: "abi_uint256 (t1 @ t2 @ t3) 2 = Inr (from_bytes_big t3)"
    using abi_uint256_third [OF l1 l2 assms(4)] .
  show ?thesis
    by (simp add: decode_erc20_or_erc721_log_def decode_erc20_log_def decode_erc721_log_def
        assms(1) a b [unfolded One_nat_def] c)
qed

lemma decode_absent:
  assumes "topics = [] \<or> hd topics \<noteq> TRANSFER_TOPIC \<or> (length topics \<noteq> 3 \<and> length topics \<noteq> 4)"
  shows "decode_erc20_or_erc721_log checksum data topics = Inr None"
  using assms
  by (auto simp: decode_erc20_or_erc721_log_def decode_erc20_log_def decode_erc721_log_def)

text \<open>
  C8, as amended. With topics \<open>[TRANSFER_TOPIC, t1, t2]\<close>, at least 32 bytes of data
  and \<open>t1\<close>, \<open>t2\<close> address words, the log decodes to an ERC20 transfer whose value is
  the first 32 bytes of the data read big-endian and whose parties are the last 20
  bytes of \<open>t1\<close> and \<open>t2\<close>. With topics \<open>[TRANSFER_TOPIC, t1, t2, t3]\<close>, \<open>t1\<close>, \<open>t2\<close>
  address words and \<open>t3\<close> of 32 bytes, it decodes to an ERC721 transfer with the token
  id \<open>t3\<close> read big-endian. With no topic, another first topic, or a number of topics
  other than 3 and 4, the result is \<open>None\<close>, not a failure.
\<close>

theorem decode_log_shapes:
  "(topics = [TRANSFER_TOPIC, t1, t2] \<and> 32 \<le> length data \<and> address_word t1 \<and> address_word t2 \<longrightarrow>
      decode_erc20_or_erc721_log checksum data topics =
        Inr (Some (Erc20Transfer (checksum (hexbytes_hex (drop 12 t1)))
                     (checksum (hexbytes_hex (drop 12 t2))) (from_bytes_big (take 32 data))))) \<and>
   (topics = [TRANSFER_TOPIC, t1, t2, t3] \<and> address_word t1 \<and> address_word t2 \<and> length t3 = 32 \<longrightarrow>
      decode_erc20_or_erc721_log checksum data topics =
        Inr (Some (Erc721Transfer (checksum (hexbytes_hex (drop 12 t1)))
                     (checksum (hexbytes_hex (drop 12 t2))) (from_bytes_big t3)))) \<and>
   (topics = [] \<or> hd topics \<noteq> TRANSFER_TOPIC \<or> (length topics \<noteq> 3 \<and> length topics \<noteq> 4) \<longrightarrow>
      decode_erc20_or_erc721_log checksum data topics = Inr None)"
  using decode_erc20_shape [of topics t1 t2 data checksum]
    decode_erc721_shape [of topics t1 t2 t3 checksum data]
    decode_absent [of topics checksum data]
  by blast

lemma zero_word: "address_word (replicate 32 0)"
  by (simp add: address_word_def)

lemma from_bytes_big_seven: "from_bytes_big (replicate 31 0 @ [7]) = 7"
  by (simp add: from_bytes_big_snoc from_bytes_big_zeros)

theorem decode_log_shapes_witness:
  "address_word (replicate 32 0) \<and>
   32 \<le> length (replicate 31 0 @ [7 :: byte]) \<and>
   decode_erc20_or_erc721_log id (replicate 31 0 @ [7])
       [TRANSFER_TOPIC, replicate 32 0, replicate 32 0] =
     Inr (Some (Erc20Transfer (hexbytes_hex (replicate 20 0)) (hexbytes_hex (replicate 20 0)) 7)) \<and>
   decode_erc20_or_erc721_log id []
       [TRANSFER_TOPIC, replicate 32 0, replicate 32 0, replicate 31 0 @ [7]] =
     Inr (Some (Erc721Transfer (hexbytes_hex (replicate 20 0)) (hexbytes_hex (replicate 20 0)) 7)) \<and>
   length [TRANSFER_TOPIC, replicate 32 0] \<noteq> 3 \<and>
   decode_erc20_or_erc721_log id [] [TRANSFER_TOPIC, replicate 32 0] = Inr None \<and>
   decode_erc20_or_erc721_log id [] [] = Inr None"
proof -
  let ?z = "replicate 32 (0 :: byte)" and ?d = "replicate 31 0 @ [7 :: byte]"
  have a: "decode_erc20_or_erc721_log id ?d [TRANSFER_TOPIC, ?z, ?z] =
     Inr (Some (Erc20Transfer (hexbytes_hex (replicate 20 0)) (hexbytes_hex (replicate 20 0)) 7))"
    using decode_log_shapes [of "[TRANSFER_TOPIC, ?z, ?z]" ?z ?z ?d id ?z] zero_word
    by (simp add: from_bytes_big_seven)
  have b: "decode_erc20_or_erc721_log id [] [TRANSFER_TOPIC, ?z, ?z, ?d] =
     Inr (Some (Erc721Transfer (hexbytes_hex (replicate 20 0)) (hexbytes_hex (replicate 20 0)) 7))"
    using decode_log_shapes [of "[TRANSFER_TOPIC, ?z, ?z, ?d]" ?z ?z "[]" id ?d] zero_word
    by (simp add: from_bytes_big_seven)
  have c: "decode_erc20_or_erc721_log id [] [TRANSFER_TOPIC, ?z] = Inr None"
    using decode_log_shapes [of "[TRANSFER_TOPIC, ?z]" ?z ?z "[]" id ?z] by simp
  have d: "decode_erc20_or_erc721_log id [] [] = Inr None"
    using decode_log_shapes [of "[]" ?z ?z "[]" id ?z] by simp
  show ?thesis using a b c d zero_word by simp
qed

text \<open>
  C8, as stated, fails on a log with the Transfer topic, three topics and empty data:
  decoding the value raises \<open>InsufficientDataBytes\<close>.
\<close>

theorem decode_log_short_data_counterexample:
  "hd [TRANSFER_TOPIC, replicate 32 0, replicate 32 0] = TRANSFER_TOPIC \<and>
   length [TRANSFER_TOPIC, replicate 32 0, replicate 32 (0 :: byte)] = 3 \<and>
   decode_erc20_or_erc721_log id [] [TRANSFER_TOPIC, replicate 32 0, replicate 32 0] =
     Inl InsufficientDataBytes"
  by (simp add: decode_erc20_or_erc721_log_def decode_erc20_log_def abi_uint256_def abi_word_def)

end
